theory Spec2Isabelle
  imports Main
begin

section \<open>Helm release management (integrations/helm/release/release.go)\<close>

text \<open>
  A shallow embedding of package \<open>release\<close>. The package talks to four collaborators that
  live outside it: the Helm client (Tiller), the go-kit logger, the \<open>kubectl\<close> process
  started through \<open>os/exec\<close>, and a handful of library functions. Every call to the first
  three is an effect; the model threads a history of such calls (each with the answer it
  got) through every operation, and an answer may depend on the whole history so far.
  A nil pointer is \<open>None\<close>, a dereference of nil is the outcome \<open>Panicked\<close>, and Go's
  (value, error) pairs are kept as pairs.
\<close>

subsection \<open>Go values\<close>

text \<open>
  An \<open>error\<close> is either a value handed over by a collaborator (opaque, type \<open>'e\<close>) or one
  built by \<open>fmt.Errorf\<close>, which is determined by its message.
\<close>

datatype 'e error = Foreign 'e | Errorf string

text \<open>The result of running a Go function body: it returns, or a nil dereference panics.\<close>

datatype 'a outcome = Returned 'a | Panicked

text \<open>\<open>strconv.Itoa\<close>, used by \<open>%d\<close> and by the String method of a protobuf enum.\<close>

fun digits :: "nat \<Rightarrow> string" where
  "digits n = (if n < 10 then [''0123456789'' ! n]
               else digits (n div 10) @ [''0123456789'' ! (n mod 10)])"

declare digits.simps [simp del]

definition Itoa :: "int \<Rightarrow> string" where
  "Itoa i = (if i < 0 then CHR ''-'' # digits (nat (- i)) else digits (nat i))"

subsection \<open>Types of the package\<close>

type_synonym Action = string

definition InstallAction :: Action where
  "InstallAction = ''CREATE''"

definition UpgradeAction :: Action where
  "UpgradeAction = ''UPDATE''"

text \<open>\<open>ErrChartGitPathMissing\<close> is a format with one \<open>%s\<close>; the function applies it.\<close>

definition ErrChartGitPathMissing :: "string \<Rightarrow> string" where
  "ErrChartGitPathMissing name =
     ''Chart deploy configuration ('' @ name @ '') has empty Chart git path''"

record Config =
  ChartsPath :: string

record DeployInfo =
  Name :: string

record InstallOptions =
  DryRun :: bool
  ReuseName :: bool

text \<open>\<open>%+v\<close> of an \<open>InstallOptions\<close> value.\<close>

definition fmt_bool :: "bool \<Rightarrow> string" where
  "fmt_bool b = (if b then ''true'' else ''false'')"

definition fmt_InstallOptions :: "InstallOptions \<Rightarrow> string" where
  "fmt_InstallOptions opts =
     ''{DryRun:'' @ fmt_bool (DryRun opts) @ '' ReuseName:'' @ fmt_bool (ReuseName opts) @ ''}''"

subsection \<open>The custom resource (ifv1.FluxHelmRelease)\<close>

text \<open>
  Only the fields the package reads. \<open>fhr_Name\<close> and \<open>fhr_Namespace\<close> are the ObjectMeta
  fields \<open>Name\<close> and \<open>Namespace\<close>; \<open>Values\<close> is kept abstract (type \<open>'v\<close>) and rendered by
  the library function \<open>Values_YAML\<close> below.
\<close>

record 'v FluxHelmReleaseSpec =
  ChartGitPath :: string
  spec_ReleaseName :: string
  Values :: 'v

record 'v FluxHelmRelease =
  fhr_Name :: string
  fhr_Namespace :: string
  Spec :: "'v FluxHelmReleaseSpec"

definition GetName :: "'v FluxHelmRelease \<Rightarrow> string" where
  "GetName fhr = fhr_Name fhr"

definition GetNamespace :: "'v FluxHelmRelease \<Rightarrow> string" where
  "GetNamespace fhr = fhr_Namespace fhr"

subsection \<open>Helm's protobuf messages (hapi)\<close>

text \<open>
  \<open>Status_Code\<close> is an int32; the table is the one quoted in \<open>canDelete\<close>. Its String
  method looks the number up and falls back to the decimal numeral.
\<close>

type_synonym Status_Code = int

definition Status_Code_name :: "(Status_Code \<times> string) list" where
  "Status_Code_name =
     [(0, ''UNKNOWN''), (1, ''DEPLOYED''), (2, ''DELETED''), (3, ''SUPERSEDED''),
      (4, ''FAILED''), (5, ''DELETING''), (6, ''PENDING_INSTALL''),
      (7, ''PENDING_UPGRADE''), (8, ''PENDING_ROLLBACK'')]"

definition Status_Code_String :: "Status_Code \<Rightarrow> string" where
  "Status_Code_String c = (case map_of Status_Code_name c of Some s \<Rightarrow> s | None \<Rightarrow> Itoa c)"

definition Status_UNKNOWN :: Status_Code where
  "Status_UNKNOWN = 0"

definition Status_DEPLOYED :: Status_Code where
  "Status_DEPLOYED = 1"

definition Status_DELETED :: Status_Code where
  "Status_DELETED = 2"

definition Status_SUPERSEDED :: Status_Code where
  "Status_SUPERSEDED = 3"

definition Status_FAILED :: Status_Code where
  "Status_FAILED = 4"

definition Status_DELETING :: Status_Code where
  "Status_DELETING = 5"

definition Status_PENDING_INSTALL :: Status_Code where
  "Status_PENDING_INSTALL = 6"

definition Status_PENDING_UPGRADE :: Status_Code where
  "Status_PENDING_UPGRADE = 7"

definition Status_PENDING_ROLLBACK :: Status_Code where
  "Status_PENDING_ROLLBACK = 8"

record hapi_Status =
  Code :: Status_Code

record hapi_Info =
  Status :: "hapi_Status option"

record hapi_Release =
  rls_Name :: string
  rls_Info :: "hapi_Info option"
  rls_Manifest :: string
  rls_Namespace :: string

record GetReleaseContentResponse =
  grc_Release :: "hapi_Release option"

record GetReleaseStatusResponse =
  grs_Info :: "hapi_Info option"

record InstallReleaseResponse =
  irr_Release :: "hapi_Release option"

record UpdateReleaseResponse =
  urr_Release :: "hapi_Release option"

record UninstallReleaseResponse =
  uir_Release :: "hapi_Release option"

record ListReleasesResponse =
  Count :: int
  Releases :: "hapi_Release option list"

text \<open>The generated getters are nil-safe: on a nil receiver they return the zero value.\<close>

definition GetCode :: "hapi_Status option \<Rightarrow> Status_Code" where
  "GetCode s = (case s of None \<Rightarrow> Status_UNKNOWN | Some st \<Rightarrow> Code st)"

definition GetStatus :: "hapi_Info option \<Rightarrow> hapi_Status option" where
  "GetStatus i = (case i of None \<Rightarrow> None | Some info \<Rightarrow> Status info)"

definition GetInfo :: "GetReleaseStatusResponse option \<Rightarrow> hapi_Info option" where
  "GetInfo r = (case r of None \<Rightarrow> None | Some resp \<Rightarrow> grs_Info resp)"

definition GetRelease :: "GetReleaseContentResponse option \<Rightarrow> hapi_Release option" where
  "GetRelease r = (case r of None \<Rightarrow> None | Some resp \<Rightarrow> grc_Release resp)"

definition GetCount :: "ListReleasesResponse option \<Rightarrow> int" where
  "GetCount r = (case r of None \<Rightarrow> 0 | Some resp \<Rightarrow> Count resp)"

definition GetReleases :: "ListReleasesResponse option \<Rightarrow> hapi_Release option list" where
  "GetReleases r = (case r of None \<Rightarrow> [] | Some resp \<Rightarrow> Releases resp)"

text \<open>The functional options of the Helm client that the package passes.\<close>

datatype InstallOption =
  ValueOverrides string | ReleaseName string | InstallDryRun bool | InstallReuseName bool

datatype UpdateOption = UpdateValueOverrides string | UpgradeDryRun bool

datatype DeleteOption = DeletePurge bool

subsection \<open>Effects: the history of calls to the collaborators\<close>

datatype 'e logval = LStr string | LErr "'e error"

datatype 'e event =
    EvLog "'e logval list" "'e error option"
  | EvReleaseContent string "GetReleaseContentResponse option \<times> 'e error option"
  | EvReleaseStatus string "GetReleaseStatusResponse option \<times> 'e error option"
  | EvInstallRelease string string "InstallOption list"
      "InstallReleaseResponse option \<times> 'e error option"
  | EvUpdateRelease string string "UpdateOption list"
      "UpdateReleaseResponse option \<times> 'e error option"
  | EvDeleteRelease string "DeleteOption list"
      "UninstallReleaseResponse option \<times> 'e error option"
  | EvListReleases "ListReleasesResponse option \<times> 'e error option"
  | EvCombinedOutput string "string list" string "string \<times> 'e error option"

type_synonym 'e history = "'e event list"

text \<open>
  \<open>k8shelm.Client\<close>, by the methods the package calls. Each takes the history so far and
  its arguments and gives Go's (response, error) pair.
\<close>

record 'e Client =
  ReleaseContent :: "'e history \<Rightarrow> string \<Rightarrow> GetReleaseContentResponse option \<times> 'e error option"
  ReleaseStatus :: "'e history \<Rightarrow> string \<Rightarrow> GetReleaseStatusResponse option \<times> 'e error option"
  InstallRelease :: "'e history \<Rightarrow> string \<Rightarrow> string \<Rightarrow> InstallOption list
     \<Rightarrow> InstallReleaseResponse option \<times> 'e error option"
  UpdateRelease :: "'e history \<Rightarrow> string \<Rightarrow> string \<Rightarrow> UpdateOption list
     \<Rightarrow> UpdateReleaseResponse option \<times> 'e error option"
  DeleteRelease :: "'e history \<Rightarrow> string \<Rightarrow> DeleteOption list
     \<Rightarrow> UninstallReleaseResponse option \<times> 'e error option"
  ListReleases :: "'e history \<Rightarrow> ListReleasesResponse option \<times> 'e error option"

text \<open>
  \<open>Release\<close>: the logger is go-kit's \<open>Log(keyvals ...interface{}) error\<close>, whose result is
  the error of writing the log entry.
\<close>

record 'e Release =
  logger :: "'e history \<Rightarrow> 'e logval list \<Rightarrow> 'e error option"
  HelmClient :: "'e Client"
  config :: Config

text \<open>
  What the package takes from libraries and from the rest of the repository:
  \<^item> \<open>GoSyntax\<close>: \<open>fmt\<close>'s \<open>%#v\<close> of an error value;
  \<^item> \<open>filepath_Join\<close>: \<open>filepath.Join\<close>;
  \<^item> \<open>Values_YAML\<close>: the \<open>YAML\<close> method of the release's values;
  \<^item> \<open>AntecedentAnnotation\<close>, \<open>MakeResourceID\<close>, \<open>ResourceID_String\<close>: the annotation key
    of \<open>cluster/kubernetes\<close> and the resource identifiers of package \<open>flux\<close>;
  \<^item> \<open>CombinedOutput\<close>: running a command (name, arguments, standard input) through
    \<open>os/exec\<close>, giving its combined output and error. The 20 second deadline of the
    context is part of this collaborator and is not modelled.
\<close>

record ('e, 'v, 'rid) Deps =
  GoSyntax :: "'e error \<Rightarrow> string"
  filepath_Join :: "string list \<Rightarrow> string"
  Values_YAML :: "'v \<Rightarrow> string \<times> 'e error option"
  AntecedentAnnotation :: string
  MakeResourceID :: "string \<Rightarrow> string \<Rightarrow> string \<Rightarrow> 'rid"
  ResourceID_String :: "'rid \<Rightarrow> string"
  CombinedOutput :: "'e history \<Rightarrow> string \<Rightarrow> string list \<Rightarrow> string \<Rightarrow> string \<times> 'e error option"

text \<open>A call to a collaborator: ask it, and append the call and its answer to the history.\<close>

definition Log :: "'e Release \<Rightarrow> 'e logval list \<Rightarrow> 'e history \<Rightarrow> 'e error option \<times> 'e history" where
  "Log r keyvals h = (let res = logger r h keyvals in (res, h @ [EvLog keyvals res]))"

definition call_ReleaseContent ::
  "'e Release \<Rightarrow> string \<Rightarrow> 'e history
     \<Rightarrow> (GetReleaseContentResponse option \<times> 'e error option) \<times> 'e history" where
  "call_ReleaseContent r name h =
     (let res = ReleaseContent (HelmClient r) h name in (res, h @ [EvReleaseContent name res]))"

definition call_ReleaseStatus ::
  "'e Release \<Rightarrow> string \<Rightarrow> 'e history
     \<Rightarrow> (GetReleaseStatusResponse option \<times> 'e error option) \<times> 'e history" where
  "call_ReleaseStatus r name h =
     (let res = ReleaseStatus (HelmClient r) h name in (res, h @ [EvReleaseStatus name res]))"

definition call_InstallRelease ::
  "'e Release \<Rightarrow> string \<Rightarrow> string \<Rightarrow> InstallOption list \<Rightarrow> 'e history
     \<Rightarrow> (InstallReleaseResponse option \<times> 'e error option) \<times> 'e history" where
  "call_InstallRelease r chstr ns opts h =
     (let res = InstallRelease (HelmClient r) h chstr ns opts
      in (res, h @ [EvInstallRelease chstr ns opts res]))"

definition call_UpdateRelease ::
  "'e Release \<Rightarrow> string \<Rightarrow> string \<Rightarrow> UpdateOption list \<Rightarrow> 'e history
     \<Rightarrow> (UpdateReleaseResponse option \<times> 'e error option) \<times> 'e history" where
  "call_UpdateRelease r rlsName chstr opts h =
     (let res = UpdateRelease (HelmClient r) h rlsName chstr opts
      in (res, h @ [EvUpdateRelease rlsName chstr opts res]))"

definition call_DeleteRelease ::
  "'e Release \<Rightarrow> string \<Rightarrow> DeleteOption list \<Rightarrow> 'e history
     \<Rightarrow> (UninstallReleaseResponse option \<times> 'e error option) \<times> 'e history" where
  "call_DeleteRelease r rlsName opts h =
     (let res = DeleteRelease (HelmClient r) h rlsName opts
      in (res, h @ [EvDeleteRelease rlsName opts res]))"

definition call_ListReleases ::
  "'e Release \<Rightarrow> 'e history \<Rightarrow> (ListReleasesResponse option \<times> 'e error option) \<times> 'e history" where
  "call_ListReleases r h =
     (let res = ListReleases (HelmClient r) h in (res, h @ [EvListReleases res]))"

definition call_CombinedOutput ::
  "('e, 'v, 'rid) Deps \<Rightarrow> string \<Rightarrow> string list \<Rightarrow> string \<Rightarrow> 'e history
     \<Rightarrow> (string \<times> 'e error option) \<times> 'e history" where
  "call_CombinedOutput d name args stdin h =
     (let res = CombinedOutput d h name args stdin
      in (res, h @ [EvCombinedOutput name args stdin res]))"

subsection \<open>GetReleaseName\<close>

definition GetReleaseName :: "'v FluxHelmRelease \<Rightarrow> string" where
  "GetReleaseName fhr =
     (let namespace = fhr_Namespace fhr;
          namespace = (if namespace = [] then ''default'' else namespace);
          releaseName = spec_ReleaseName (Spec fhr);
          releaseName = (if releaseName = [] then namespace @ ''-'' @ fhr_Name fhr
                         else releaseName)
      in releaseName)"

subsection \<open>GetDeployedRelease\<close>

text \<open>
  \<open>rls.Release.Info.Status.GetCode()\<close> reads the fields \<open>Release\<close> and \<open>Info\<close> directly, so
  a nil response, a nil release or a nil info panics; \<open>GetCode\<close> is nil-safe.
\<close>

definition GetDeployedRelease ::
  "'e Release \<Rightarrow> string \<Rightarrow> 'e history
     \<Rightarrow> (hapi_Release option \<times> 'e error option) outcome \<times> 'e history" where
  "GetDeployedRelease r name h =
     (let ((rls, err), h1) = call_ReleaseContent r name h in
      case err of
        Some e \<Rightarrow> (Returned (None, err), h1)
      | None \<Rightarrow>
          (case rls of
             None \<Rightarrow> (Panicked, h1)
           | Some resp \<Rightarrow>
               (case grc_Release resp of
                  None \<Rightarrow> (Panicked, h1)
                | Some rel \<Rightarrow>
                    (case rls_Info rel of
                       None \<Rightarrow> (Panicked, h1)
                     | Some info \<Rightarrow>
                         if GetCode (Status info) = Status_DEPLOYED
                         then (Returned (GetRelease rls, None), h1)
                         else (Returned (None, None), h1)))))"

subsection \<open>canDelete\<close>

text \<open>
  \<open>rls.GetInfo().GetStatus()\<close> is nil-safe, \<open>status.Code\<close> is a field read: a nil status
  panics before the second log entry.
\<close>

definition canDelete ::
  "('e, 'v, 'rid) Deps \<Rightarrow> 'e Release \<Rightarrow> string \<Rightarrow> 'e history
     \<Rightarrow> (bool \<times> 'e error option) outcome \<times> 'e history" where
  "canDelete d r name h =
     (let ((rls, err), h1) = call_ReleaseStatus r name h in
      case err of
        Some e \<Rightarrow>
          (let (_, h2) = Log r [LStr ''error'',
                  LStr (''Error finding status for release ('' @ name @ ''): '' @ GoSyntax d e)] h1
           in (Returned (False, err), h2))
      | None \<Rightarrow>
          (case GetStatus (GetInfo rls) of
             None \<Rightarrow> (Panicked, h1)
           | Some status \<Rightarrow>
               (let (_, h2) = Log r [LStr ''info'',
                       LStr (''Release ['' @ name @ ''] status: '' @ Status_Code_String (Code status))] h1
                in if Code status = 1 \<or> Code status = 4 then
                     (let (_, h3) = Log r [LStr ''info'',
                             LStr (''Deleting release ('' @ name @ '')'')] h2
                      in (Returned (True, None), h3))
                   else if Code status = 2 then
                     (let (_, h3) = Log r [LStr ''info'',
                             LStr (''Release ('' @ name @ '') already deleted'')] h2
                      in (Returned (False, None), h3))
                   else
                     (let (_, h3) = Log r [LStr ''info'',
                             LStr (''Release ('' @ name @ '') with status ''
                                   @ Status_Code_String (Code status) @ '' cannot be deleted'')] h2
                      in (Returned (False,
                            Some (Errorf (''Release ('' @ name @ '') with status ''
                                   @ Status_Code_String (Code status) @ '' cannot be deleted''))),
                          h3)))))"

subsection \<open>fhrResourceID and annotateResources\<close>

definition fhrResourceID :: "('e, 'v, 'rid) Deps \<Rightarrow> 'v FluxHelmRelease \<Rightarrow> 'rid" where
  "fhrResourceID d fhr = MakeResourceID d (fhr_Namespace fhr) ''FluxHelmRelease'' (fhr_Name fhr)"

text \<open>
  \<open>release.Namespace\<close> is a field read on the pointer the caller passes: a nil release
  panics before the command is built. The error of the command is returned as it is.
\<close>

definition annotateResources ::
  "('e, 'v, 'rid) Deps \<Rightarrow> 'e Release \<Rightarrow> hapi_Release option \<Rightarrow> 'v FluxHelmRelease \<Rightarrow> 'e history
     \<Rightarrow> 'e error option outcome \<times> 'e history" where
  "annotateResources d r release fhr h =
     (case release of
        None \<Rightarrow> (Panicked, h)
      | Some rel \<Rightarrow>
          (let args = [''annotate'', ''--overwrite''];
               args = args @ [''--namespace'', rls_Namespace rel];
               args = args @ [''-f'', ''-''];
               args = args @ [AntecedentAnnotation d @ ''=''
                                @ ResourceID_String d (fhrResourceID d fhr)];
               ((output, err), h1) = call_CombinedOutput d ''kubectl'' args (rls_Manifest rel) h
           in case err of
                Some e \<Rightarrow>
                  (let (_, h2) = Log r [LStr ''output'', LStr output, LStr ''err'', LErr e] h1
                   in (Returned err, h2))
              | None \<Rightarrow> (Returned err, h1)))"

subsection \<open>Install\<close>

text \<open>
  After a successful call of the store, \<open>res.Release\<close> is a field read on the response:
  a nil response panics, in a dry run at the return statement and otherwise at the call
  of \<open>annotateResources\<close>.
\<close>

definition Install ::
  "('e, 'v, 'rid) Deps \<Rightarrow> 'e Release \<Rightarrow> string \<Rightarrow> string \<Rightarrow> 'v FluxHelmRelease \<Rightarrow> Action
     \<Rightarrow> InstallOptions \<Rightarrow> 'e history
     \<Rightarrow> (hapi_Release option \<times> 'e error option) outcome \<times> 'e history" where
  "Install d r repoDir releaseName fhr action opts h =
     (let (_, h1) = Log r [LStr ''info'',
              LStr (''releaseName= '' @ releaseName @ '', action='' @ action
                    @ '', install options: '' @ fmt_InstallOptions opts)] h;
          chartPath = ChartGitPath (Spec fhr)
      in if chartPath = [] then
           (let (_, h2) = Log r [LStr ''error'', LStr (ErrChartGitPathMissing (GetName fhr))] h1
            in (Returned (None, Some (Errorf (ErrChartGitPathMissing (GetName fhr)))), h2))
         else
           (let namespace = GetNamespace fhr;
                namespace = (if namespace = [] then ''default'' else namespace);
                chartDir = filepath_Join d [repoDir, ChartsPath (config r), chartPath];
                (strVals, err) = Values_YAML d (Values (Spec fhr))
            in case err of
                 Some e \<Rightarrow>
                   (let (_, h2) = Log r [LStr ''error'',
                           LStr (''Problem with supplied customizations for Chart release [''
                                 @ releaseName @ '']: '' @ GoSyntax d e)] h1
                    in (Returned (None, err), h2))
               | None \<Rightarrow>
                   (let rawVals = strVals
                    in if action = InstallAction then
                         (let ((res, err), h2) =
                                call_InstallRelease r chartDir namespace
                                  [ValueOverrides rawVals, ReleaseName releaseName,
                                   InstallDryRun (DryRun opts),
                                   InstallReuseName (ReuseName opts)] h1
                          in case err of
                               Some e \<Rightarrow>
                                 (let (_, h3) = Log r [LStr ''error'',
                                         LStr (''Chart release failed: '' @ releaseName @ '': ''
                                               @ GoSyntax d e)] h2
                                  in (Returned (None, err), h3))
                             | None \<Rightarrow>
                                 (case res of
                                    None \<Rightarrow> (Panicked, h2)
                                  | Some resp \<Rightarrow>
                                      if \<not> DryRun opts then
                                        (case annotateResources d r (irr_Release resp) fhr h2 of
                                           (Panicked, h3) \<Rightarrow> (Panicked, h3)
                                         | (Returned err, h3) \<Rightarrow>
                                             (Returned (irr_Release resp, err), h3))
                                      else (Returned (irr_Release resp, err), h2)))
                       else if action = UpgradeAction then
                         (let ((res, err), h2) =
                                call_UpdateRelease r releaseName chartDir
                                  [UpdateValueOverrides rawVals, UpgradeDryRun (DryRun opts)] h1
                          in case err of
                               Some e \<Rightarrow>
                                 (let (_, h3) = Log r [LStr ''error'',
                                         LStr (''Chart upgrade release failed: '' @ releaseName
                                               @ '': '' @ GoSyntax d e)] h2
                                  in (Returned (None, err), h3))
                             | None \<Rightarrow>
                                 (case res of
                                    None \<Rightarrow> (Panicked, h2)
                                  | Some resp \<Rightarrow>
                                      if \<not> DryRun opts then
                                        (case annotateResources d r (urr_Release resp) fhr h2 of
                                           (Panicked, h3) \<Rightarrow> (Panicked, h3)
                                         | (Returned err, h3) \<Rightarrow>
                                             (Returned (urr_Release resp, err), h3))
                                      else (Returned (urr_Release resp, err), h2)))
                       else
                         (let err = Errorf (''Valid install options: CREATE, UPDATE. Provided: ''
                                            @ action);
                              (_, h2) = Log r [LStr ''error'',
                                 LStr (''Valid install options: CREATE, UPDATE. Provided: ''
                                       @ action)] h1
                          in (Returned (None, Some err), h2)))))"

subsection \<open>Delete\<close>

definition Delete ::
  "('e, 'v, 'rid) Deps \<Rightarrow> 'e Release \<Rightarrow> string \<Rightarrow> 'e history
     \<Rightarrow> 'e error option outcome \<times> 'e history" where
  "Delete d r name h =
     (case canDelete d r name h of
        (Panicked, h1) \<Rightarrow> (Panicked, h1)
      | (Returned (ok, err), h1) \<Rightarrow>
          if \<not> ok then
            (if err \<noteq> None then (Returned err, h1) else (Returned None, h1))
          else
            (let ((_, err), h2) = call_DeleteRelease r name [DeletePurge True] h1
             in case err of
                  Some e \<Rightarrow>
                    (let (_, h3) = Log r [LStr ''error'',
                            LStr (''Release deletion error: '' @ GoSyntax d e)] h2
                     in (Returned err, h3))
                | None \<Rightarrow>
                    (let (_, h3) = Log r [LStr ''info'',
                            LStr (''Release deleted: ['' @ name @ '']'')] h2
                     in (Returned None, h3))))"

subsection \<open>GetCurrent\<close>

text \<open>
  The loop over \<open>response.GetReleases()\<close>. Reading a missing key of a Go map gives the nil
  slice, and \<open>append\<close> to it starts a new one; \<open>r.Namespace\<close> on a nil entry panics.
\<close>

fun GetCurrent_loop ::
  "hapi_Release option list \<Rightarrow> (string \<rightharpoonup> DeployInfo list)
     \<Rightarrow> (string \<rightharpoonup> DeployInfo list) outcome" where
  "GetCurrent_loop [] relsM = Returned relsM"
| "GetCurrent_loop (None # rs) relsM = Panicked"
| "GetCurrent_loop (Some r # rs) relsM =
     (let ns = rls_Namespace r;
          depl = (case relsM ns of None \<Rightarrow> [] | Some ds \<Rightarrow> ds);
          depl = depl @ [\<lparr>Name = rls_Name r\<rparr>]
      in GetCurrent_loop rs (relsM(ns \<mapsto> depl)))"

text \<open>
  On a failed list call the function returns what \<open>logger.Log\<close> returns. The result map is
  a pointer-like value: \<open>None\<close> is the nil map.
\<close>

definition GetCurrent ::
  "'e Release \<Rightarrow> 'e history
     \<Rightarrow> ((string \<rightharpoonup> DeployInfo list) option \<times> 'e error option) outcome \<times> 'e history" where
  "GetCurrent r h =
     (let ((response, err), h1) = call_ListReleases r h in
      case err of
        Some e \<Rightarrow>
          (let (logerr, h2) = Log r [LStr ''error'', LErr e] h1
           in (Returned (None, logerr), h2))
      | None \<Rightarrow>
          (let (_, h2) = Log r [LStr ''info'',
                  LStr (''Number of Chart releases: '' @ Itoa (GetCount response) @ [CHR 0x0A])] h1
           in case GetCurrent_loop (GetReleases response) Map.empty of
                Panicked \<Rightarrow> (Panicked, h2)
              | Returned relsM \<Rightarrow> (Returned (Some relsM, None), h2)))"

subsection \<open>Reading a history\<close>

text \<open>The entries a call added, and the kinds of entry the properties speak about.\<close>

definition added :: "'e history \<Rightarrow> 'e history \<Rightarrow> 'e history" where
  "added h h' = drop (length h) h'"

fun is_store_call :: "'e event \<Rightarrow> bool" where
  "is_store_call (EvLog _ _) = False"
| "is_store_call (EvCombinedOutput _ _ _ _) = False"
| "is_store_call _ = True"

fun is_purge :: "'e event \<Rightarrow> bool" where
  "is_purge (EvDeleteRelease _ _ _) = True"
| "is_purge _ = False"

fun is_annotation :: "'e event \<Rightarrow> bool" where
  "is_annotation (EvCombinedOutput _ _ _ _) = True"
| "is_annotation _ = False"

subsection \<open>Test doubles\<close>

text \<open>
  Collaborators for concrete runs: a logger that always succeeds, a client whose methods
  answer (nil, nil), and library functions with simple behaviour. Values are modelled as
  \<open>Inr yaml\<close> when they serialise to \<open>yaml\<close> and \<open>Inl e\<close> when serialisation fails with \<open>e\<close>;
  paths are joined with a slash between the elements that are not empty; a resource
  identifier is the triple it was made from, printed as \<open>namespace:kind/name\<close>; the
  command always gives the output and error the double was built with.
\<close>

definition quiet_logger :: "string history \<Rightarrow> string logval list \<Rightarrow> string error option" where
  "quiet_logger h keyvals = None"

definition stub_Client :: "string Client" where
  "stub_Client =
     \<lparr>ReleaseContent = (\<lambda>h name. (None, None)),
      ReleaseStatus = (\<lambda>h name. (None, None)),
      InstallRelease = (\<lambda>h chstr ns opts. (None, None)),
      UpdateRelease = (\<lambda>h rlsName chstr opts. (None, None)),
      DeleteRelease = (\<lambda>h rlsName opts. (None, None)),
      ListReleases = (\<lambda>h. (None, None))\<rparr>"

definition stub_Release :: "string Client \<Rightarrow> string Release" where
  "stub_Release c = \<lparr>logger = quiet_logger, HelmClient = c, config = \<lparr>ChartsPath = ''charts''\<rparr>\<rparr>"

definition stub_Deps ::
  "(string \<times> string error option) \<Rightarrow> (string, string + string, string \<times> string \<times> string) Deps" where
  "stub_Deps kubectl =
     \<lparr>GoSyntax = (\<lambda>e. case e of Foreign m \<Rightarrow> m | Errorf m \<Rightarrow> m),
      filepath_Join = (\<lambda>elems. foldr (\<lambda>el acc. if acc = [] then el else el @ ''/'' @ acc)
                                (filter (\<lambda>el. el \<noteq> []) elems) []),
      Values_YAML = (\<lambda>v. case v of Inl m \<Rightarrow> ([], Some (Foreign m)) | Inr y \<Rightarrow> (y, None)),
      AntecedentAnnotation = ''flux.weave.works/antecedent'',
      MakeResourceID = (\<lambda>ns kind name. (ns, kind, name)),
      ResourceID_String = (\<lambda>(ns, kind, name). ns @ '':'' @ kind @ ''/'' @ name),
      CombinedOutput = (\<lambda>h name args stdin. kubectl)\<rparr>"

definition status_response :: "Status_Code \<Rightarrow> GetReleaseStatusResponse" where
  "status_response c = \<lparr>grs_Info = Some \<lparr>Status = Some \<lparr>Code = c\<rparr>\<rparr>\<rparr>"

definition stub_record :: "string \<Rightarrow> string \<Rightarrow> Status_Code \<Rightarrow> hapi_Release" where
  "stub_record ns name c =
     \<lparr>rls_Name = name, rls_Info = Some \<lparr>Status = Some \<lparr>Code = c\<rparr>\<rparr>,
      rls_Manifest = ''kind: ConfigMap'', rls_Namespace = ns\<rparr>"

definition stub_fhr :: "string \<Rightarrow> string \<Rightarrow> string \<Rightarrow> (string + string) \<Rightarrow> (string + string) FluxHelmRelease" where
  "stub_fhr ns name chartPath vals =
     \<lparr>fhr_Name = name, fhr_Namespace = ns,
      Spec = \<lparr>ChartGitPath = chartPath, spec_ReleaseName = [], Values = vals\<rparr>\<rparr>"

definition status_client ::
  "GetReleaseStatusResponse option \<times> string error option \<Rightarrow> string Client" where
  "status_client res = stub_Client\<lparr>ReleaseStatus := (\<lambda>h name. res)\<rparr>"

definition content_client ::
  "GetReleaseContentResponse option \<times> string error option \<Rightarrow> string Client" where
  "content_client res = stub_Client\<lparr>ReleaseContent := (\<lambda>h name. res)\<rparr>"

definition list_client ::
  "ListReleasesResponse option \<times> string error option \<Rightarrow> string Client" where
  "list_client res = stub_Client\<lparr>ListReleases := (\<lambda>h. res)\<rparr>"

definition delete_client ::
  "GetReleaseStatusResponse option \<times> string error option
     \<Rightarrow> UninstallReleaseResponse option \<times> string error option \<Rightarrow> string Client" where
  "delete_client status res =
     stub_Client\<lparr>ReleaseStatus := (\<lambda>h name. status), DeleteRelease := (\<lambda>h name opts. res)\<rparr>"

definition mutate_client ::
  "InstallReleaseResponse option \<times> string error option
     \<Rightarrow> UpdateReleaseResponse option \<times> string error option \<Rightarrow> string Client" where
  "mutate_client ires ures =
     stub_Client\<lparr>InstallRelease := (\<lambda>h chstr ns opts. ires),
                 UpdateRelease := (\<lambda>h rlsName chstr opts. ures)\<rparr>"

section \<open>Properties\<close>

subsection \<open>Histories and logging\<close>

lemma added_append [simp]: "added h (h @ xs) = xs"
  by (simp add: added_def)

lemma added_append2 [simp]: "added h ((h @ xs) @ ys) = xs @ ys"
  by (simp add: added_def)

lemma added_self [simp]: "added h h = []"
  by (simp add: added_def)

lemma Log_eq: "Log r kv h = (logger r h kv, h @ [EvLog kv (logger r h kv)])"
  by (simp add: Log_def Let_def)

text \<open>Log messages play no part in the properties; this rule keeps the simplifier out of them.\<close>

lemma LStr_opaque: "LStr s = LStr s"
  by (rule refl)

lemmas Status_defs =
  Status_UNKNOWN_def Status_DEPLOYED_def Status_DELETED_def Status_SUPERSEDED_def
  Status_FAILED_def Status_DELETING_def Status_PENDING_INSTALL_def
  Status_PENDING_UPGRADE_def Status_PENDING_ROLLBACK_def

lemmas stub_defs =
  stub_Release_def stub_Client_def stub_Deps_def stub_fhr_def stub_record_def
  status_response_def quiet_logger_def status_client_def content_client_def list_client_def
  delete_client_def mutate_client_def

subsection \<open>Release naming\<close>

text \<open>
  Claim C7. \<open>GetReleaseName\<close> returns the override \<open>Spec.ReleaseName\<close> when it is not empty,
  and otherwise the namespace (with \<open>default\<close> for the empty namespace), a hyphen and the
  name. Its result is fixed by these three fields alone: two resources that agree on them,
  whatever else they hold, get the same release name. With no override, no namespace and
  the name \<open>foo\<close> the result is \<open>default-foo\<close>.
\<close>

theorem GetReleaseName_spec:
  "GetReleaseName fhr =
     (if spec_ReleaseName (Spec fhr) \<noteq> [] then spec_ReleaseName (Spec fhr)
      else (if fhr_Namespace fhr = [] then ''default'' else fhr_Namespace fhr)
           @ ''-'' @ fhr_Name fhr)
   \<and> (fhr_Namespace (fhr' :: 'w FluxHelmRelease) = fhr_Namespace fhr
        \<and> fhr_Name fhr' = fhr_Name fhr
        \<and> spec_ReleaseName (Spec fhr') = spec_ReleaseName (Spec fhr)
        \<longrightarrow> GetReleaseName fhr' = GetReleaseName fhr)
   \<and> (spec_ReleaseName (Spec fhr) = [] \<and> fhr_Namespace fhr = [] \<and> fhr_Name fhr = ''foo''
        \<longrightarrow> GetReleaseName fhr = ''default-foo'')"
  by (simp add: GetReleaseName_def Let_def)

theorem GetReleaseName_spec_witness:
  "GetReleaseName (stub_fhr [] ''foo'' ''charts/foo'' (Inr ''a: 1'')) = ''default-foo''
   \<and> GetReleaseName (stub_fhr [] ''foo'' ''elsewhere'' (Inl ''bad''))
       = GetReleaseName (stub_fhr [] ''foo'' ''charts/foo'' (Inr ''a: 1''))
   \<and> GetReleaseName (stub_fhr ''team'' ''foo'' ''charts/foo'' (Inr ''a: 1'')) = ''team-foo''"
proof -
  let ?a = "stub_fhr [] ''foo'' ''charts/foo'' (Inr ''a: 1'')"
  let ?b = "stub_fhr [] ''foo'' ''elsewhere'' (Inl ''bad'')"
  let ?c = "stub_fhr ''team'' ''foo'' ''charts/foo'' (Inr ''a: 1'')"
  from GetReleaseName_spec [of ?a ?b]
  have 1: "GetReleaseName ?a = ''default-foo'' \<and> GetReleaseName ?b = GetReleaseName ?a"
    by (simp add: stub_fhr_def)
  from GetReleaseName_spec [of ?c ?c] have 2: "GetReleaseName ?c = ''team-foo''"
    by (simp add: stub_fhr_def)
  from 1 2 show ?thesis by simp
qed

subsection \<open>The status policy\<close>

text \<open>
  Claim C1. When the status query succeeds and the response carries a status, \<open>canDelete\<close>
  returns (true, nil) for the codes DEPLOYED and FAILED, (false, nil) for DELETED, and for
  every other code (false, e) where the message of \<open>e\<close> contains the String form of the
  code, which for the six remaining named codes is the name itself. When the status query
  fails with an error, \<open>canDelete\<close> returns (false, that error).
\<close>

theorem canDelete_status_table:
  "(ReleaseStatus (HelmClient r) h name = (rls, None) \<and> GetStatus (GetInfo rls) = Some status \<longrightarrow>
      (Code status \<in> {Status_DEPLOYED, Status_FAILED} \<longrightarrow>
         fst (canDelete d r name h) = Returned (True, None)) \<and>
      (Code status = Status_DELETED \<longrightarrow>
         fst (canDelete d r name h) = Returned (False, None)) \<and>
      (Code status \<notin> {Status_DEPLOYED, Status_FAILED, Status_DELETED} \<longrightarrow>
         fst (canDelete d r name h) =
           Returned (False, Some (Errorf (''Release ('' @ name @ '') with status ''
                       @ Status_Code_String (Code status) @ '' cannot be deleted'')))))
   \<and> (ReleaseStatus (HelmClient r) h name = (rls, Some e) \<longrightarrow>
        fst (canDelete d r name h) = Returned (False, Some e))
   \<and> map Status_Code_String
        [Status_UNKNOWN, Status_SUPERSEDED, Status_DELETING, Status_PENDING_INSTALL,
         Status_PENDING_UPGRADE, Status_PENDING_ROLLBACK]
      = [''UNKNOWN'', ''SUPERSEDED'', ''DELETING'', ''PENDING_INSTALL'',
         ''PENDING_UPGRADE'', ''PENDING_ROLLBACK'']"
  by (simp add: canDelete_def call_ReleaseStatus_def Log_eq Let_def Status_defs
      Status_Code_String_def Status_Code_name_def)

theorem canDelete_status_table_witness:
  "fst (canDelete (stub_Deps ([], None))
          (stub_Release (status_client (Some (status_response Status_FAILED), None))) ''foo'' [])
     = Returned (True, None)
   \<and> fst (canDelete (stub_Deps ([], None))
          (stub_Release (status_client (Some (status_response Status_DELETED), None))) ''foo'' [])
     = Returned (False, None)
   \<and> fst (canDelete (stub_Deps ([], None))
          (stub_Release (status_client (Some (status_response Status_PENDING_INSTALL), None)))
          ''foo'' [])
     = Returned (False,
         Some (Errorf ''Release (foo) with status PENDING_INSTALL cannot be deleted''))
   \<and> fst (canDelete (stub_Deps ([], None))
          (stub_Release (status_client (None, Some (Foreign ''tiller unreachable'')))) ''foo'' [])
     = Returned (False, Some (Foreign ''tiller unreachable''))"
  using
    canDelete_status_table [of
      "stub_Release (status_client (Some (status_response Status_FAILED), None))" "[]" "''foo''"
      "Some (status_response Status_FAILED)" "\<lparr>Code = Status_FAILED\<rparr>" "stub_Deps ([], None)"]
    canDelete_status_table [of
      "stub_Release (status_client (Some (status_response Status_DELETED), None))" "[]" "''foo''"
      "Some (status_response Status_DELETED)" "\<lparr>Code = Status_DELETED\<rparr>" "stub_Deps ([], None)"]
    canDelete_status_table [of
      "stub_Release (status_client (Some (status_response Status_PENDING_INSTALL), None))" "[]"
      "''foo''" "Some (status_response Status_PENDING_INSTALL)"
      "\<lparr>Code = Status_PENDING_INSTALL\<rparr>" "stub_Deps ([], None)"]
    canDelete_status_table [of
      "stub_Release (status_client (None, Some (Foreign ''tiller unreachable'')))" "[]" "''foo''"
      "None" _ _ "Foreign ''tiller unreachable''"]
  by (simp add: stub_Release_def status_client_def stub_Client_def status_response_def
      GetStatus_def GetInfo_def Status_FAILED_def Status_DELETED_def Status_DEPLOYED_def
      Status_PENDING_INSTALL_def)

subsection \<open>Queries\<close>

text \<open>
  Claim C2. The claim asks that a failed list call makes \<open>GetCurrent\<close> return a nil map with
  the store's error. The function returns the result of \<open>logger.Log\<close> instead: with a
  store that fails with \<open>connection refused\<close> and a logger that writes its entry without
  error, \<open>GetCurrent\<close> returns the nil map and the nil error.
\<close>

theorem GetCurrent_drops_store_error:
  "ListReleases (list_client (None, Some (Foreign ''connection refused''))) []
     = (None, Some (Foreign ''connection refused''))
   \<and> GetCurrent (stub_Release (list_client (None, Some (Foreign ''connection refused'')))) []
     = (Returned (None, None),
        [EvListReleases (None, Some (Foreign ''connection refused'')),
         EvLog [LStr ''error'', LErr (Foreign ''connection refused'')] None])"
  by (simp add: GetCurrent_def call_ListReleases_def Log_eq Let_def list_client_def
      stub_Release_def stub_Client_def quiet_logger_def)

text \<open>In general the error returned on that path is whatever the logger answers.\<close>

lemma GetCurrent_failed_list:
  "ListReleases (HelmClient r) h = (response, Some e) \<Longrightarrow>
     fst (GetCurrent r h)
       = Returned (None,
           logger r (h @ [EvListReleases (response, Some e)]) [LStr ''error'', LErr e])"
  by (simp add: GetCurrent_def call_ListReleases_def Log_eq Let_def)

text \<open>
  Claim C3, as stated, fails: a store that answers "not found" answers with an error, and
  \<open>GetDeployedRelease\<close> hands every error of the store back to its caller.
\<close>

theorem GetDeployedRelease_not_found_is_error:
  "ReleaseContent (content_client (None, Some (Foreign ''release: not found''))) [] ''foo''
     = (None, Some (Foreign ''release: not found''))
   \<and> fst (GetDeployedRelease
        (stub_Release (content_client (None, Some (Foreign ''release: not found'')))) ''foo'' [])
     = Returned (None, Some (Foreign ''release: not found''))
   \<and> fst (GetDeployedRelease
        (stub_Release (content_client (None, Some (Foreign ''release: not found'')))) ''foo'' [])
     \<noteq> Returned (None, None)"
  by (simp add: GetDeployedRelease_def call_ReleaseContent_def Let_def content_client_def
      stub_Release_def stub_Client_def)

text \<open>
  Claim C3, amended. When the lookup succeeds (with a record that carries its info),
  \<open>GetDeployedRelease\<close> returns the record if its status code is DEPLOYED and (nil, nil) for
  any other code; it returns a record only in that case. Every error of the store, the
  "not found" one included, is returned unchanged with a nil record.
\<close>

theorem GetDeployedRelease_spec:
  "(ReleaseContent (HelmClient r) h name = (Some resp, None) \<and> grc_Release resp = Some rel
      \<and> rls_Info rel = Some info \<longrightarrow>
      (GetCode (Status info) = Status_DEPLOYED \<longrightarrow>
         fst (GetDeployedRelease r name h) = Returned (Some rel, None)) \<and>
      (GetCode (Status info) \<noteq> Status_DEPLOYED \<longrightarrow>
         fst (GetDeployedRelease r name h) = Returned (None, None)))
   \<and> (ReleaseContent (HelmClient r) h name = (rls, Some e) \<longrightarrow>
        fst (GetDeployedRelease r name h) = Returned (None, Some e))
   \<and> (fst (GetDeployedRelease r name h) = Returned (Some rel', err') \<longrightarrow>
        err' = None \<and>
        (\<exists>resp' info'. ReleaseContent (HelmClient r) h name = (Some resp', None)
           \<and> grc_Release resp' = Some rel' \<and> rls_Info rel' = Some info'
           \<and> GetCode (Status info') = Status_DEPLOYED))"
  by (auto simp add: GetDeployedRelease_def call_ReleaseContent_def Let_def GetRelease_def
      split: option.splits prod.splits if_splits)

theorem GetDeployedRelease_spec_witness:
  "fst (GetDeployedRelease
          (stub_Release (content_client
             (Some \<lparr>grc_Release = Some (stub_record ''prod'' ''foo'' Status_DEPLOYED)\<rparr>, None)))
          ''foo'' [])
     = Returned (Some (stub_record ''prod'' ''foo'' Status_DEPLOYED), None)
   \<and> fst (GetDeployedRelease
          (stub_Release (content_client
             (Some \<lparr>grc_Release = Some (stub_record ''prod'' ''foo'' Status_FAILED)\<rparr>, None)))
          ''foo'' [])
     = Returned (None, None)
   \<and> fst (GetDeployedRelease
          (stub_Release (content_client (None, Some (Foreign ''release: not found''))))
          ''foo'' [])
     = Returned (None, Some (Foreign ''release: not found''))
   \<and> ReleaseContent (content_client
        (Some \<lparr>grc_Release = Some (stub_record ''prod'' ''foo'' Status_DEPLOYED)\<rparr>, None)) [] ''foo''
     = (Some \<lparr>grc_Release = Some (stub_record ''prod'' ''foo'' Status_DEPLOYED)\<rparr>, None)"
proof -
  let ?dep = "stub_record ''prod'' ''foo'' Status_DEPLOYED"
  let ?fail = "stub_record ''prod'' ''foo'' Status_FAILED"
  let ?r1 = "stub_Release (content_client (Some \<lparr>grc_Release = Some ?dep\<rparr>, None))"
  let ?r2 = "stub_Release (content_client (Some \<lparr>grc_Release = Some ?fail\<rparr>, None))"
  let ?r3 = "stub_Release (content_client (None, Some (Foreign ''release: not found'')))"
  from GetDeployedRelease_spec [of ?r1 "[]" "''foo''" "\<lparr>grc_Release = Some ?dep\<rparr>" ?dep
      "\<lparr>Status = Some \<lparr>Code = Status_DEPLOYED\<rparr>\<rparr>"]
  have 1: "fst (GetDeployedRelease ?r1 ''foo'' []) = Returned (Some ?dep, None)"
    by (simp add: stub_defs GetCode_def)
  from GetDeployedRelease_spec [of ?r2 "[]" "''foo''" "\<lparr>grc_Release = Some ?fail\<rparr>" ?fail
      "\<lparr>Status = Some \<lparr>Code = Status_FAILED\<rparr>\<rparr>"]
  have 2: "fst (GetDeployedRelease ?r2 ''foo'' []) = Returned (None, None)"
    by (simp add: stub_defs GetCode_def Status_defs)
  from GetDeployedRelease_spec [of ?r3 "[]" "''foo''" _ _ _ None "Foreign ''release: not found''"]
  have 3: "fst (GetDeployedRelease ?r3 ''foo'' [])
      = Returned (None, Some (Foreign ''release: not found''))"
    by (simp add: stub_defs)
  from GetDeployedRelease_spec [of ?r1 "[]" "''foo''" _ _ _ _ _ ?dep None] 1
  have 4: "\<exists>resp' info'. ReleaseContent (HelmClient ?r1) [] ''foo'' = (Some resp', None)
           \<and> grc_Release resp' = Some ?dep \<and> rls_Info ?dep = Some info'
           \<and> GetCode (Status info') = Status_DEPLOYED"
    by blast
  have 5: "ReleaseContent (content_client (Some \<lparr>grc_Release = Some ?dep\<rparr>, None)) [] ''foo''
     = (Some \<lparr>grc_Release = Some ?dep\<rparr>, None)"
    using 4 by (auto simp add: stub_defs)
  from 1 2 3 5 show ?thesis by blast
qed

subsection \<open>Delete\<close>

text \<open>\<open>canDelete\<close> asks the store for the status once and never purges.\<close>

lemma canDelete_extends:
  "\<exists>xs. snd (canDelete d r name h) = h @ xs \<and> filter is_purge xs = []
        \<and> filter is_store_call xs
            = [EvReleaseStatus name (ReleaseStatus (HelmClient r) h name)]"
  by (simp add: canDelete_def call_ReleaseStatus_def Log_eq Let_def
      split: option.splits prod.splits)

text \<open>
  Claim C4. \<open>Delete\<close> goes by the answer of \<open>canDelete\<close>. On (false, nil) it returns nil and
  on (false, e) it returns \<open>e\<close>, in both cases leaving the history as \<open>canDelete\<close> left it,
  with no purge in it. On (true, _) it issues exactly one \<open>DeleteRelease\<close> with the purge
  option and returns the error of that call. In particular a release whose status in the
  store is DELETED is not purged and \<open>Delete\<close> returns nil.
\<close>

theorem Delete_consults_canDelete:
  "(canDelete d r name h = (Returned (False, None), h1) \<longrightarrow>
      Delete d r name h = (Returned None, h1) \<and> filter is_purge (added h h1) = [])
   \<and> (canDelete d r name h = (Returned (False, Some e), h1) \<longrightarrow>
      Delete d r name h = (Returned (Some e), h1) \<and> filter is_purge (added h h1) = [])
   \<and> (canDelete d r name h = (Returned (True, x), h1) \<longrightarrow>
      (\<exists>h2. Delete d r name h
              = (Returned (snd (DeleteRelease (HelmClient r) h1 name [DeletePurge True])), h2)
         \<and> filter is_purge (added h h2)
             = [EvDeleteRelease name [DeletePurge True]
                  (DeleteRelease (HelmClient r) h1 name [DeletePurge True])]))
   \<and> (ReleaseStatus (HelmClient r) h name = (rls, None)
        \<and> GetStatus (GetInfo rls) = Some status \<and> Code status = Status_DELETED \<longrightarrow>
      fst (Delete d r name h) = Returned None
      \<and> filter is_purge (added h (snd (Delete d r name h))) = [])"
proof -
  obtain xs where xs: "snd (canDelete d r name h) = h @ xs" "filter is_purge xs = []"
    using canDelete_extends by blast
  have a: "canDelete d r name h = (Returned (False, None), h1) \<longrightarrow>
      Delete d r name h = (Returned None, h1) \<and> filter is_purge (added h h1) = []"
    using xs by (auto simp add: Delete_def)
  have b: "canDelete d r name h = (Returned (False, Some e), h1) \<longrightarrow>
      Delete d r name h = (Returned (Some e), h1) \<and> filter is_purge (added h h1) = []"
    using xs by (auto simp add: Delete_def)
  have c: "canDelete d r name h = (Returned (True, x), h1) \<longrightarrow>
      (\<exists>h2. Delete d r name h
              = (Returned (snd (DeleteRelease (HelmClient r) h1 name [DeletePurge True])), h2)
         \<and> filter is_purge (added h h2)
             = [EvDeleteRelease name [DeletePurge True]
                  (DeleteRelease (HelmClient r) h1 name [DeletePurge True])])"
    using xs
    by (auto simp add: Delete_def call_DeleteRelease_def Log_eq Let_def
        split: option.splits prod.splits)
  have d: "ReleaseStatus (HelmClient r) h name = (rls, None)
        \<and> GetStatus (GetInfo rls) = Some status \<and> Code status = Status_DELETED \<longrightarrow>
      fst (Delete d r name h) = Returned None
      \<and> filter is_purge (added h (snd (Delete d r name h))) = []"
    by (simp add: Delete_def canDelete_def call_ReleaseStatus_def Log_eq Let_def Status_defs)
  from a b c d show ?thesis by blast
qed

theorem Delete_consults_canDelete_witness:
  "Delete (stub_Deps ([], None))
       (stub_Release (delete_client (Some (status_response Status_DELETED), None) (None, None)))
       ''foo'' []
     = (Returned None,
        snd (canDelete (stub_Deps ([], None))
          (stub_Release (delete_client (Some (status_response Status_DELETED), None) (None, None)))
          ''foo'' []))
   \<and> filter is_purge (snd (Delete (stub_Deps ([], None))
       (stub_Release (delete_client (Some (status_response Status_DELETED), None) (None, None)))
       ''foo'' [])) = []
   \<and> fst (Delete (stub_Deps ([], None))
       (stub_Release (delete_client (Some (status_response Status_DELETING), None) (None, None)))
       ''foo'' [])
     = Returned (Some (Errorf ''Release (foo) with status DELETING cannot be deleted''))
   \<and> filter is_purge (snd (Delete (stub_Deps ([], None))
       (stub_Release (delete_client (Some (status_response Status_DELETING), None) (None, None)))
       ''foo'' [])) = []
   \<and> fst (Delete (stub_Deps ([], None))
       (stub_Release (delete_client (Some (status_response Status_DEPLOYED), None)
          (None, Some (Foreign ''tiller unreachable''))))
       ''foo'' [])
     = Returned (Some (Foreign ''tiller unreachable''))
   \<and> filter is_purge (snd (Delete (stub_Deps ([], None))
       (stub_Release (delete_client (Some (status_response Status_DEPLOYED), None)
          (None, Some (Foreign ''tiller unreachable''))))
       ''foo'' []))
     = [EvDeleteRelease ''foo'' [DeletePurge True] (None, Some (Foreign ''tiller unreachable''))]"
proof -
  let ?d = "stub_Deps ([], None) :: (string, string + string, string \<times> string \<times> string) Deps"
  let ?r1 = "stub_Release (delete_client (Some (status_response Status_DELETED), None) (None, None))"
  let ?r2 = "stub_Release (delete_client (Some (status_response Status_DELETING), None) (None, None))"
  let ?r3 = "stub_Release (delete_client (Some (status_response Status_DEPLOYED), None)
          (None, Some (Foreign ''tiller unreachable'')))"
  let ?e = "Errorf ''Release (foo) with status DELETING cannot be deleted'' :: string error"
  have c1: "canDelete ?d ?r1 ''foo'' [] = (Returned (False, None), snd (canDelete ?d ?r1 ''foo'' []))"
    by (simp add: canDelete_def call_ReleaseStatus_def Log_eq Let_def stub_defs Status_defs
        GetStatus_def GetInfo_def)
  have c2: "canDelete ?d ?r2 ''foo'' [] = (Returned (False, Some ?e), snd (canDelete ?d ?r2 ''foo'' []))"
    by (simp add: canDelete_def call_ReleaseStatus_def Log_eq Let_def stub_defs Status_defs
        GetStatus_def GetInfo_def Status_Code_String_def Status_Code_name_def)
  have c3: "canDelete ?d ?r3 ''foo'' [] = (Returned (True, None), snd (canDelete ?d ?r3 ''foo'' []))"
    by (simp add: canDelete_def call_ReleaseStatus_def Log_eq Let_def stub_defs Status_defs
        GetStatus_def GetInfo_def)
  have s1: "ReleaseStatus (HelmClient ?r1) [] ''foo'' = (Some (status_response Status_DELETED), None)
     \<and> GetStatus (GetInfo (Some (status_response Status_DELETED))) = Some \<lparr>Code = Status_DELETED\<rparr>"
    by (simp add: stub_defs GetStatus_def GetInfo_def)
  from Delete_consults_canDelete [where d = ?d and r = ?r1 and name = "''foo''" and h = "[]"
      and ?h1.0 = "snd (canDelete ?d ?r1 ''foo'' [])"
      and rls = "Some (status_response Status_DELETED)" and status = "\<lparr>Code = Status_DELETED\<rparr>"] c1 s1
  have 1: "Delete ?d ?r1 ''foo'' [] = (Returned None, snd (canDelete ?d ?r1 ''foo'' []))
       \<and> filter is_purge (snd (Delete ?d ?r1 ''foo'' [])) = []"
    by (simp add: added_def)
  from Delete_consults_canDelete [where d = ?d and r = ?r2 and name = "''foo''" and h = "[]"
      and ?h1.0 = "snd (canDelete ?d ?r2 ''foo'' [])" and e = ?e] c2
  have 2: "fst (Delete ?d ?r2 ''foo'' []) = Returned (Some ?e)
       \<and> filter is_purge (snd (Delete ?d ?r2 ''foo'' [])) = []"
    by (simp add: added_def)
  from Delete_consults_canDelete [where d = ?d and r = ?r3 and name = "''foo''" and h = "[]"
      and ?h1.0 = "snd (canDelete ?d ?r3 ''foo'' [])" and x = None] c3
  obtain h2 where h2:
    "Delete ?d ?r3 ''foo'' []
       = (Returned (snd (DeleteRelease (HelmClient ?r3) (snd (canDelete ?d ?r3 ''foo'' []))
                      ''foo'' [DeletePurge True])), h2)"
    "filter is_purge (added [] h2)
       = [EvDeleteRelease ''foo'' [DeletePurge True]
            (DeleteRelease (HelmClient ?r3) (snd (canDelete ?d ?r3 ''foo'' []))
               ''foo'' [DeletePurge True])]"
    by blast
  have dr: "DeleteRelease (HelmClient ?r3) (snd (canDelete ?d ?r3 ''foo'' [])) ''foo''
      [DeletePurge True] = (None, Some (Foreign ''tiller unreachable''))"
    by (simp add: stub_Release_def delete_client_def stub_Client_def)
  from h2 have 3: "fst (Delete ?d ?r3 ''foo'' []) = Returned (Some (Foreign ''tiller unreachable''))
       \<and> filter is_purge (snd (Delete ?d ?r3 ''foo'' []))
          = [EvDeleteRelease ''foo'' [DeletePurge True] (None, Some (Foreign ''tiller unreachable''))]"
    by (simp add: added_def dr)
  from 1 2 3 show ?thesis by blast
qed

subsection \<open>Install: the checks before the store is called\<close>

text \<open>
  Claim C5, as stated, fails in its second half: with well-formed values and an action that
  is neither CREATE nor UPDATE, a resource with an empty chart path gets the chart-path
  error, which does not list the valid actions.
\<close>

theorem Install_empty_chart_path_masks_bad_action:
  "snd (Values_YAML (stub_Deps ([], None)) (Values (Spec (stub_fhr ''team'' ''foo'' [] (Inr ''a: 1'')))))
     = None
   \<and> ''DELETE'' \<notin> {InstallAction, UpgradeAction}
   \<and> fst (Install (stub_Deps ([], None)) (stub_Release stub_Client) ''/repo'' ''team-foo''
            (stub_fhr ''team'' ''foo'' [] (Inr ''a: 1'')) ''DELETE''
            \<lparr>DryRun = False, ReuseName = False\<rparr> [])
       = Returned (None,
           Some (Errorf ''Chart deploy configuration (foo) has empty Chart git path''))
   \<and> fst (Install (stub_Deps ([], None)) (stub_Release stub_Client) ''/repo'' ''team-foo''
            (stub_fhr ''team'' ''foo'' [] (Inr ''a: 1'')) ''DELETE''
            \<lparr>DryRun = False, ReuseName = False\<rparr> [])
       \<noteq> Returned (None,
           Some (Errorf ''Valid install options: CREATE, UPDATE. Provided: DELETE''))"
  by (simp add: Install_def Log_eq Let_def ErrChartGitPathMissing_def GetName_def stub_defs
      InstallAction_def UpgradeAction_def)

text \<open>
  Claim C5, amended. With an empty chart path \<open>Install\<close> returns the error whose message
  contains the name of the resource, and calls no method of the store. With a chart path
  that is not empty, values that serialise and an action that is neither CREATE nor UPDATE
  it returns the error that lists these two actions, and calls no method of the store.
\<close>

theorem Install_config_errors:
  "(ChartGitPath (Spec fhr) = [] \<longrightarrow>
      fst (Install d r repoDir releaseName fhr action opts h)
        = Returned (None, Some (Errorf (''Chart deploy configuration ('' @ fhr_Name fhr
                                         @ '') has empty Chart git path'')))
      \<and> filter is_store_call (added h (snd (Install d r repoDir releaseName fhr action opts h)))
          = [])
   \<and> (ChartGitPath (Spec fhr) \<noteq> [] \<and> snd (Values_YAML d (Values (Spec fhr))) = None
        \<and> action \<notin> {InstallAction, UpgradeAction} \<longrightarrow>
      fst (Install d r repoDir releaseName fhr action opts h)
        = Returned (None, Some (Errorf (''Valid install options: '' @ InstallAction @ '', ''
                                         @ UpgradeAction @ ''. Provided: '' @ action)))
      \<and> filter is_store_call (added h (snd (Install d r repoDir releaseName fhr action opts h)))
          = [])"
  by (simp add: Install_def Log_eq Let_def ErrChartGitPathMissing_def GetName_def
      InstallAction_def UpgradeAction_def split: prod.splits)

theorem Install_config_errors_witness:
  "fst (Install (stub_Deps ([], None)) (stub_Release stub_Client) ''/repo'' ''team-foo''
          (stub_fhr ''team'' ''foo'' [] (Inr ''a: 1'')) InstallAction
          \<lparr>DryRun = False, ReuseName = False\<rparr> [])
     = Returned (None, Some (Errorf ''Chart deploy configuration (foo) has empty Chart git path''))
   \<and> filter is_store_call (snd (Install (stub_Deps ([], None)) (stub_Release stub_Client)
          ''/repo'' ''team-foo'' (stub_fhr ''team'' ''foo'' [] (Inr ''a: 1'')) InstallAction
          \<lparr>DryRun = False, ReuseName = False\<rparr> [])) = []
   \<and> fst (Install (stub_Deps ([], None)) (stub_Release stub_Client) ''/repo'' ''team-foo''
          (stub_fhr ''team'' ''foo'' ''foo-chart'' (Inr ''a: 1'')) ''DELETE''
          \<lparr>DryRun = False, ReuseName = False\<rparr> [])
     = Returned (None, Some (Errorf ''Valid install options: CREATE, UPDATE. Provided: DELETE''))
   \<and> filter is_store_call (snd (Install (stub_Deps ([], None)) (stub_Release stub_Client)
          ''/repo'' ''team-foo'' (stub_fhr ''team'' ''foo'' ''foo-chart'' (Inr ''a: 1'')) ''DELETE''
          \<lparr>DryRun = False, ReuseName = False\<rparr> [])) = []"
  using
    Install_config_errors [of "stub_fhr ''team'' ''foo'' [] (Inr ''a: 1'')" "stub_Deps ([], None)"
      "stub_Release stub_Client" "''/repo''" "''team-foo''" InstallAction
      "\<lparr>DryRun = False, ReuseName = False\<rparr>" "[]"]
    Install_config_errors [of "stub_fhr ''team'' ''foo'' ''foo-chart'' (Inr ''a: 1'')"
      "stub_Deps ([], None)" "stub_Release stub_Client" "''/repo''" "''team-foo''" "''DELETE''"
      "\<lparr>DryRun = False, ReuseName = False\<rparr>" "[]"]
  by (simp add: stub_fhr_def stub_Deps_def InstallAction_def UpgradeAction_def added_def)

text \<open>
  Claim C9. The checks of \<open>Install\<close> come in a fixed order. With an empty chart path the
  chart-path error is returned whatever the action (and whatever the values); with a chart
  path that is not empty and values whose serialisation fails with \<open>e\<close>, the result is \<open>e\<close>
  whatever the action, an invalid one included. In both cases no method of the store is
  called.
\<close>

theorem Install_check_order:
  "(ChartGitPath (Spec fhr) = [] \<longrightarrow>
      fst (Install d r repoDir releaseName fhr action opts h)
        = Returned (None, Some (Errorf (ErrChartGitPathMissing (GetName fhr))))
      \<and> filter is_store_call (added h (snd (Install d r repoDir releaseName fhr action opts h)))
          = [])
   \<and> (ChartGitPath (Spec fhr) \<noteq> [] \<and> Values_YAML d (Values (Spec fhr)) = (strVals, Some e) \<longrightarrow>
      fst (Install d r repoDir releaseName fhr action opts h) = Returned (None, Some e)
      \<and> filter is_store_call (added h (snd (Install d r repoDir releaseName fhr action opts h)))
          = [])"
  by (simp add: Install_def Log_eq Let_def)

theorem Install_check_order_witness:
  "fst (Install (stub_Deps ([], None)) (stub_Release stub_Client) ''/repo'' ''team-foo''
          (stub_fhr ''team'' ''foo'' [] (Inl ''yaml: unsupported type'')) ''DELETE''
          \<lparr>DryRun = False, ReuseName = False\<rparr> [])
     = Returned (None, Some (Errorf ''Chart deploy configuration (foo) has empty Chart git path''))
   \<and> filter is_store_call (snd (Install (stub_Deps ([], None)) (stub_Release stub_Client)
          ''/repo'' ''team-foo'' (stub_fhr ''team'' ''foo'' [] (Inl ''yaml: unsupported type''))
          ''DELETE'' \<lparr>DryRun = False, ReuseName = False\<rparr> [])) = []
   \<and> fst (Install (stub_Deps ([], None)) (stub_Release stub_Client) ''/repo'' ''team-foo''
          (stub_fhr ''team'' ''foo'' ''foo-chart'' (Inl ''yaml: unsupported type'')) ''DELETE''
          \<lparr>DryRun = False, ReuseName = False\<rparr> [])
     = Returned (None, Some (Foreign ''yaml: unsupported type''))
   \<and> filter is_store_call (snd (Install (stub_Deps ([], None)) (stub_Release stub_Client)
          ''/repo'' ''team-foo'' (stub_fhr ''team'' ''foo'' ''foo-chart'' (Inl ''yaml: unsupported type''))
          ''DELETE'' \<lparr>DryRun = False, ReuseName = False\<rparr> [])) = []"
  using
    Install_check_order [of "stub_fhr ''team'' ''foo'' [] (Inl ''yaml: unsupported type'')"
      "stub_Deps ([], None)" "stub_Release stub_Client" "''/repo''" "''team-foo''" "''DELETE''"
      "\<lparr>DryRun = False, ReuseName = False\<rparr>" "[]"]
    Install_check_order [of "stub_fhr ''team'' ''foo'' ''foo-chart'' (Inl ''yaml: unsupported type'')"
      "stub_Deps ([], None)" "stub_Release stub_Client" "''/repo''" "''team-foo''" "''DELETE''"
      "\<lparr>DryRun = False, ReuseName = False\<rparr>" "[]" "[]" "Foreign ''yaml: unsupported type''"]
  by (simp add: stub_fhr_def stub_Deps_def added_def ErrChartGitPathMissing_def GetName_def)

subsection \<open>GetCurrent: grouping by namespace\<close>

text \<open>
  The loop appends the name of each release to the entry of its namespace; entries that
  were in the map before keep their names in front.
\<close>

lemma GetCurrent_loop_groups:
  "GetCurrent_loop (map Some rels) m =
     Returned (\<lambda>ns. case map (\<lambda>r. \<lparr>Name = rls_Name r\<rparr>) (filter (\<lambda>r. rls_Namespace r = ns) rels) of
                        [] \<Rightarrow> m ns
                      | names \<Rightarrow> Some ((case m ns of None \<Rightarrow> [] | Some ds \<Rightarrow> ds) @ names))"
proof (induction rels arbitrary: m)
  case Nil
  then show ?case by simp
next
  case (Cons r rels)
  show ?case
    by (simp add: Cons.IH Let_def fun_eq_iff split: list.splits option.splits)
qed

lemma GetCurrent_loop_empty:
  "GetCurrent_loop (map Some rels) Map.empty =
     Returned (\<lambda>ns. case map (\<lambda>r. \<lparr>Name = rls_Name r\<rparr>) (filter (\<lambda>r. rls_Namespace r = ns) rels) of
                        [] \<Rightarrow> None
                      | names \<Rightarrow> Some names)"
  by (simp add: GetCurrent_loop_groups fun_eq_iff split: list.splits)

text \<open>
  Claim C8. When the list call succeeds (and no entry of the response is nil),
  \<open>GetCurrent\<close> returns a map that sends each namespace with a release in the response to
  the names of its releases, in the order of the response, and has no other key: a
  namespace without a release is absent, and no key is mapped to the empty list.
\<close>

theorem GetCurrent_groups_by_namespace:
  assumes list: "ListReleases (HelmClient r) h = (response, None)"
    and rels: "GetReleases response = map Some rels"
  shows "\<exists>relsM. fst (GetCurrent r h) = Returned (Some relsM, None)
      \<and> (\<forall>ns. relsM ns =
            (if ns \<in> rls_Namespace ` set rels
             then Some (map (\<lambda>rel. \<lparr>Name = rls_Name rel\<rparr>)
                          (filter (\<lambda>rel. rls_Namespace rel = ns) rels))
             else None))
      \<and> dom relsM = rls_Namespace ` set rels
      \<and> [] \<notin> ran relsM"
proof -
  let ?m = "\<lambda>ns. case map (\<lambda>r. \<lparr>Name = rls_Name r\<rparr>) (filter (\<lambda>r. rls_Namespace r = ns) rels) of
                        [] \<Rightarrow> None
                      | names \<Rightarrow> Some names"
  have run: "fst (GetCurrent r h) = Returned (Some ?m, None)"
    using assms
    by (simp add: GetCurrent_def call_ListReleases_def Log_eq Let_def GetCurrent_loop_empty)
  have pt: "?m ns =
            (if ns \<in> rls_Namespace ` set rels
             then Some (map (\<lambda>rel. \<lparr>Name = rls_Name rel\<rparr>)
                          (filter (\<lambda>rel. rls_Namespace rel = ns) rels))
             else None)" for ns
  proof (cases "filter (\<lambda>rel. rls_Namespace rel = ns) rels")
    case Nil
    then have "ns \<notin> rls_Namespace ` set rels"
      by (auto simp add: filter_empty_conv)
    with Nil show ?thesis by simp
  next
    case (Cons z zs)
    then have "z \<in> set (filter (\<lambda>rel. rls_Namespace rel = ns) rels)"
      by simp
    then have "ns \<in> rls_Namespace ` set rels"
      by auto
    with Cons show ?thesis by simp
  qed
  have dm: "dom ?m = rls_Namespace ` set rels"
    by (auto simp add: dom_def pt)
  have nonempty: "[] \<notin> ran ?m"
    by (auto simp add: ran_def split: list.splits)
  from run pt dm nonempty show ?thesis
    by blast
qed

theorem GetCurrent_groups_by_namespace_witness:
  "\<exists>relsM. fst (GetCurrent
         (stub_Release (list_client
            (Some \<lparr>Count = 3,
                   Releases = [Some (stub_record ''prod'' ''web'' Status_DEPLOYED),
                               Some (stub_record ''dev'' ''db'' Status_FAILED),
                               Some (stub_record ''prod'' ''api'' Status_DEPLOYED)]\<rparr>, None))) [])
       = Returned (Some relsM, None)
     \<and> relsM ''prod'' = Some [\<lparr>Name = ''web''\<rparr>, \<lparr>Name = ''api''\<rparr>]
     \<and> relsM ''dev'' = Some [\<lparr>Name = ''db''\<rparr>]
     \<and> relsM ''staging'' = None
     \<and> dom relsM = {''prod'', ''dev''}"
proof -
  let ?rels = "[stub_record ''prod'' ''web'' Status_DEPLOYED,
                stub_record ''dev'' ''db'' Status_FAILED,
                stub_record ''prod'' ''api'' Status_DEPLOYED]"
  let ?resp = "Some \<lparr>Count = 3, Releases = map Some ?rels\<rparr>"
  let ?r = "stub_Release (list_client (?resp, None))"
  have list: "ListReleases (HelmClient ?r) [] = (?resp, None)"
    by (simp add: stub_Release_def list_client_def stub_Client_def)
  have rels: "GetReleases ?resp = map Some ?rels"
    by (simp add: GetReleases_def)
  from GetCurrent_groups_by_namespace [OF list rels]
  obtain relsM where m: "fst (GetCurrent ?r []) = Returned (Some relsM, None)"
    "\<And>ns. relsM ns =
            (if ns \<in> rls_Namespace ` set ?rels
             then Some (map (\<lambda>rel. \<lparr>Name = rls_Name rel\<rparr>)
                          (filter (\<lambda>rel. rls_Namespace rel = ns) ?rels))
             else None)"
    "dom relsM = rls_Namespace ` set ?rels"
    by blast
  have 1: "relsM ''prod'' = Some [\<lparr>Name = ''web''\<rparr>, \<lparr>Name = ''api''\<rparr>]"
    by (simp add: m(2) stub_record_def)
  have 2: "relsM ''dev'' = Some [\<lparr>Name = ''db''\<rparr>]"
    by (simp add: m(2) stub_record_def)
  have 3: "relsM ''staging'' = None"
    by (simp add: m(2) stub_record_def)
  have 4: "dom relsM = {''prod'', ''dev''}"
    by (auto simp add: m(3) stub_record_def)
  from m(1) have 0: "fst (GetCurrent
         (stub_Release (list_client
            (Some \<lparr>Count = 3,
                   Releases = [Some (stub_record ''prod'' ''web'' Status_DEPLOYED),
                               Some (stub_record ''dev'' ''db'' Status_FAILED),
                               Some (stub_record ''prod'' ''api'' Status_DEPLOYED)]\<rparr>, None))) [])
       = Returned (Some relsM, None)"
    by simp
  from 0 1 2 3 4 show ?thesis
    by blast
qed

subsection \<open>Install: annotation after a successful mutation\<close>

text \<open>
  With a release to annotate, \<open>annotateResources\<close> runs one command, \<open>kubectl annotate\<close>
  with the namespace and the manifest of that release and the label built by
  \<open>fhrResourceID\<close>, and returns the error of the command; it may add a log entry.
\<close>

lemma annotateResources_run:
  "\<exists>logs. annotateResources d r (Some rel) fhr h =
      (Returned (snd (CombinedOutput d h ''kubectl''
           [''annotate'', ''--overwrite'', ''--namespace'', rls_Namespace rel, ''-f'', ''-'',
            AntecedentAnnotation d @ ''='' @ ResourceID_String d
              (MakeResourceID d (fhr_Namespace fhr) ''FluxHelmRelease'' (fhr_Name fhr))]
           (rls_Manifest rel))),
       h @ EvCombinedOutput ''kubectl''
           [''annotate'', ''--overwrite'', ''--namespace'', rls_Namespace rel, ''-f'', ''-'',
            AntecedentAnnotation d @ ''='' @ ResourceID_String d
              (MakeResourceID d (fhr_Namespace fhr) ''FluxHelmRelease'' (fhr_Name fhr))]
           (rls_Manifest rel)
           (CombinedOutput d h ''kubectl''
             [''annotate'', ''--overwrite'', ''--namespace'', rls_Namespace rel, ''-f'', ''-'',
              AntecedentAnnotation d @ ''='' @ ResourceID_String d
                (MakeResourceID d (fhr_Namespace fhr) ''FluxHelmRelease'' (fhr_Name fhr))]
             (rls_Manifest rel)) # logs)
     \<and> filter is_annotation logs = [] \<and> filter is_store_call logs = []"
  by (simp add: annotateResources_def call_CombinedOutput_def Log_eq Let_def fhrResourceID_def
      split: option.splits prod.splits)

text \<open>
  What \<open>Install\<close> does once the chart path and the values are in order and the store has
  answered the create (or the update) with a response and no error.
\<close>

lemma Install_create_ok:
  assumes path: "ChartGitPath (Spec fhr) \<noteq> []"
    and vals: "Values_YAML d (Values (Spec fhr)) = (strVals, None)"
    and h1: "Log r [LStr ''info'',
               LStr (''releaseName= '' @ releaseName @ '', action='' @ InstallAction
                     @ '', install options: '' @ fmt_InstallOptions opts)] h = (le, h1)"
    and store: "InstallRelease (HelmClient r) h1
         (filepath_Join d [repoDir, ChartsPath (config r), ChartGitPath (Spec fhr)])
         (if fhr_Namespace fhr = [] then ''default'' else fhr_Namespace fhr)
         [ValueOverrides strVals, ReleaseName releaseName,
          InstallDryRun (DryRun opts), InstallReuseName (ReuseName opts)] = (Some iresp, None)"
    and rel: "irr_Release iresp = Some rel"
  shows "Install d r repoDir releaseName fhr InstallAction opts h =
     (if DryRun opts
      then (Returned (Some rel, None), h1 @ [EvInstallRelease
         (filepath_Join d [repoDir, ChartsPath (config r), ChartGitPath (Spec fhr)])
         (if fhr_Namespace fhr = [] then ''default'' else fhr_Namespace fhr)
         [ValueOverrides strVals, ReleaseName releaseName,
          InstallDryRun (DryRun opts), InstallReuseName (ReuseName opts)] (Some iresp, None)])
      else (case annotateResources d r (Some rel) fhr (h1 @ [EvInstallRelease
         (filepath_Join d [repoDir, ChartsPath (config r), ChartGitPath (Spec fhr)])
         (if fhr_Namespace fhr = [] then ''default'' else fhr_Namespace fhr)
         [ValueOverrides strVals, ReleaseName releaseName,
          InstallDryRun (DryRun opts), InstallReuseName (ReuseName opts)] (Some iresp, None)]) of
              (Panicked, h3) \<Rightarrow> (Panicked, h3)
            | (Returned err, h3) \<Rightarrow> (Returned (Some rel, err), h3)))"
  unfolding Install_def
  by (simp add: h1 path vals store rel call_InstallRelease_def GetNamespace_def Let_def
      split: prod.splits outcome.splits cong: LStr_opaque)

lemma Install_update_ok:
  assumes path: "ChartGitPath (Spec fhr) \<noteq> []"
    and vals: "Values_YAML d (Values (Spec fhr)) = (strVals, None)"
    and h1: "Log r [LStr ''info'',
               LStr (''releaseName= '' @ releaseName @ '', action='' @ UpgradeAction
                     @ '', install options: '' @ fmt_InstallOptions opts)] h = (le, h1)"
    and store: "UpdateRelease (HelmClient r) h1 releaseName
         (filepath_Join d [repoDir, ChartsPath (config r), ChartGitPath (Spec fhr)])
         [UpdateValueOverrides strVals, UpgradeDryRun (DryRun opts)] = (Some uresp, None)"
    and rel: "urr_Release uresp = Some rel"
  shows "Install d r repoDir releaseName fhr UpgradeAction opts h =
     (if DryRun opts
      then (Returned (Some rel, None), h1 @ [EvUpdateRelease releaseName
         (filepath_Join d [repoDir, ChartsPath (config r), ChartGitPath (Spec fhr)])
         [UpdateValueOverrides strVals, UpgradeDryRun (DryRun opts)] (Some uresp, None)])
      else (case annotateResources d r (Some rel) fhr (h1 @ [EvUpdateRelease releaseName
         (filepath_Join d [repoDir, ChartsPath (config r), ChartGitPath (Spec fhr)])
         [UpdateValueOverrides strVals, UpgradeDryRun (DryRun opts)] (Some uresp, None)]) of
              (Panicked, h3) \<Rightarrow> (Panicked, h3)
            | (Returned err, h3) \<Rightarrow> (Returned (Some rel, err), h3)))"
proof -
  have ne: "UpgradeAction \<noteq> InstallAction"
    by (simp add: InstallAction_def UpgradeAction_def)
  show ?thesis
    unfolding Install_def
    by (simp add: h1 path vals store rel ne call_UpdateRelease_def GetNamespace_def Let_def
        split: prod.splits outcome.splits cong: LStr_opaque)
qed

lemma Install_success_run:
  assumes path: "ChartGitPath (Spec fhr) \<noteq> []"
    and vals: "Values_YAML d (Values (Spec fhr)) = (strVals, None)"
    and h1: "h1 = snd (Log r [LStr ''info'',
               LStr (''releaseName= '' @ releaseName @ '', action='' @ action
                     @ '', install options: '' @ fmt_InstallOptions opts)] h)"
    and chartDir: "chartDir = filepath_Join d [repoDir, ChartsPath (config r), ChartGitPath (Spec fhr)]"
    and ns: "namespace = (if fhr_Namespace fhr = [] then ''default'' else fhr_Namespace fhr)"
    and iopts: "iopts = [ValueOverrides strVals, ReleaseName releaseName,
                         InstallDryRun (DryRun opts), InstallReuseName (ReuseName opts)]"
    and uopts: "uopts = [UpdateValueOverrides strVals, UpgradeDryRun (DryRun opts)]"
    and store:
      "(action = InstallAction
          \<and> InstallRelease (HelmClient r) h1 chartDir namespace iopts = (Some iresp, None)
          \<and> irr_Release iresp = Some rel
          \<and> ev = EvInstallRelease chartDir namespace iopts (Some iresp, None))
       \<or> (action = UpgradeAction
          \<and> UpdateRelease (HelmClient r) h1 releaseName chartDir uopts = (Some uresp, None)
          \<and> urr_Release uresp = Some rel
          \<and> ev = EvUpdateRelease releaseName chartDir uopts (Some uresp, None))"
    and args: "args = [''annotate'', ''--overwrite'', ''--namespace'', rls_Namespace rel, ''-f'', ''-'',
                       AntecedentAnnotation d @ ''='' @ ResourceID_String d
                         (MakeResourceID d (fhr_Namespace fhr) ''FluxHelmRelease'' (fhr_Name fhr))]"
    and answer: "answer = CombinedOutput d (h1 @ [ev]) ''kubectl'' args (rls_Manifest rel)"
  shows "\<exists>l logs. \<not> is_annotation l \<and> \<not> is_store_call l
           \<and> filter is_annotation logs = [] \<and> filter is_store_call logs = []
           \<and> is_store_call ev \<and> \<not> is_annotation ev
           \<and> Install d r repoDir releaseName fhr action opts h =
               (if DryRun opts then (Returned (Some rel, None), h @ [l, ev])
                else (Returned (Some rel, snd answer),
                      h @ [l, ev, EvCombinedOutput ''kubectl'' args (rls_Manifest rel) answer]
                        @ logs))"
proof -
  obtain l where h1': "h1 = h @ [l]" and l: "\<not> is_annotation l" "\<not> is_store_call l"
    using h1 by (simp add: Log_eq)
  obtain logs where ann:
    "annotateResources d r (Some rel) fhr (h1 @ [ev])
       = (Returned (snd answer),
          (h1 @ [ev]) @ EvCombinedOutput ''kubectl'' args (rls_Manifest rel) answer # logs)"
    "filter is_annotation logs = []" "filter is_store_call logs = []"
    using annotateResources_run [of d r rel fhr "h1 @ [ev]"] args answer by blast
  have ev: "is_store_call ev" "\<not> is_annotation ev"
    using store by auto
  have run: "Install d r repoDir releaseName fhr action opts h =
      (if DryRun opts then (Returned (Some rel, None), h1 @ [ev])
       else (case annotateResources d r (Some rel) fhr (h1 @ [ev]) of
               (Panicked, h3) \<Rightarrow> (Panicked, h3)
             | (Returned err, h3) \<Rightarrow> (Returned (Some rel, err), h3)))"
    using store
  proof (elim disjE conjE)
    assume a: "action = InstallAction"
      "InstallRelease (HelmClient r) h1 chartDir namespace iopts = (Some iresp, None)"
      "irr_Release iresp = Some rel"
      "ev = EvInstallRelease chartDir namespace iopts (Some iresp, None)"
    have lg: "Log r [LStr ''info'',
               LStr (''releaseName= '' @ releaseName @ '', action='' @ InstallAction
                     @ '', install options: '' @ fmt_InstallOptions opts)] h
        = (fst (Log r [LStr ''info'',
               LStr (''releaseName= '' @ releaseName @ '', action='' @ InstallAction
                     @ '', install options: '' @ fmt_InstallOptions opts)] h), h1)"
      using h1 a(1) by simp
    from Install_create_ok [OF path vals lg a(2) [unfolded chartDir ns iopts] a(3)]
    show ?thesis
      unfolding a(1) a(4) chartDir ns iopts .
  next
    assume a: "action = UpgradeAction"
      "UpdateRelease (HelmClient r) h1 releaseName chartDir uopts = (Some uresp, None)"
      "urr_Release uresp = Some rel"
      "ev = EvUpdateRelease releaseName chartDir uopts (Some uresp, None)"
    have lg: "Log r [LStr ''info'',
               LStr (''releaseName= '' @ releaseName @ '', action='' @ UpgradeAction
                     @ '', install options: '' @ fmt_InstallOptions opts)] h
        = (fst (Log r [LStr ''info'',
               LStr (''releaseName= '' @ releaseName @ '', action='' @ UpgradeAction
                     @ '', install options: '' @ fmt_InstallOptions opts)] h), h1)"
      using h1 a(1) by simp
    from Install_update_ok [OF path vals lg a(2) [unfolded chartDir uopts] a(3)]
    show ?thesis
      unfolding a(1) a(4) chartDir uopts .
  qed
  show ?thesis
  proof (cases "DryRun opts")
    case True
    with run h1' l ev ann(2,3) show ?thesis by auto
  next
    case False
    with run ann h1' l ev show ?thesis by auto
  qed
qed

text \<open>
  Claim C6. Let the chart path be non-empty and the values serialise, and let the store
  answer the create (for CREATE) or the update (for UPDATE) that \<open>Install\<close> sends, at the
  history after the first log entry, with a release record and no error. Then \<open>Install\<close>
  returns that record. In a dry run it returns it with a nil error and runs no command.
  Otherwise it runs exactly one command, \<open>kubectl annotate --overwrite\<close> in the namespace
  of the record, on the manifest of the record, with the label of the resource, and returns
  the record together with the error of that command, whether nil or not. In both cases
  the create or update is the only call to the store: nothing is rolled back.
\<close>

theorem Install_annotation:
  assumes path: "ChartGitPath (Spec fhr) \<noteq> []"
    and vals: "Values_YAML d (Values (Spec fhr)) = (strVals, None)"
    and h1: "h1 = snd (Log r [LStr ''info'',
               LStr (''releaseName= '' @ releaseName @ '', action='' @ action
                     @ '', install options: '' @ fmt_InstallOptions opts)] h)"
    and chartDir: "chartDir = filepath_Join d [repoDir, ChartsPath (config r), ChartGitPath (Spec fhr)]"
    and ns: "namespace = (if fhr_Namespace fhr = [] then ''default'' else fhr_Namespace fhr)"
    and iopts: "iopts = [ValueOverrides strVals, ReleaseName releaseName,
                         InstallDryRun (DryRun opts), InstallReuseName (ReuseName opts)]"
    and uopts: "uopts = [UpdateValueOverrides strVals, UpgradeDryRun (DryRun opts)]"
    and store:
      "(action = InstallAction
          \<and> InstallRelease (HelmClient r) h1 chartDir namespace iopts = (Some iresp, None)
          \<and> irr_Release iresp = Some rel
          \<and> ev = EvInstallRelease chartDir namespace iopts (Some iresp, None))
       \<or> (action = UpgradeAction
          \<and> UpdateRelease (HelmClient r) h1 releaseName chartDir uopts = (Some uresp, None)
          \<and> urr_Release uresp = Some rel
          \<and> ev = EvUpdateRelease releaseName chartDir uopts (Some uresp, None))"
    and args: "args = [''annotate'', ''--overwrite'', ''--namespace'', rls_Namespace rel, ''-f'', ''-'',
                       AntecedentAnnotation d @ ''='' @ ResourceID_String d
                         (MakeResourceID d (fhr_Namespace fhr) ''FluxHelmRelease'' (fhr_Name fhr))]"
    and answer: "answer = CombinedOutput d (h1 @ [ev]) ''kubectl'' args (rls_Manifest rel)"
  shows "fst (Install d r repoDir releaseName fhr action opts h)
           = Returned (Some rel, if DryRun opts then None else snd answer)
     \<and> filter is_annotation (added h (snd (Install d r repoDir releaseName fhr action opts h)))
           = (if DryRun opts then []
              else [EvCombinedOutput ''kubectl'' args (rls_Manifest rel) answer])
     \<and> filter is_store_call (added h (snd (Install d r repoDir releaseName fhr action opts h)))
           = [ev]"
proof -
  from Install_success_run [OF assms]
  obtain l logs where "\<not> is_annotation l" "\<not> is_store_call l"
    "filter is_annotation logs = []" "filter is_store_call logs = []"
    "is_store_call ev" "\<not> is_annotation ev"
    "Install d r repoDir releaseName fhr action opts h =
       (if DryRun opts then (Returned (Some rel, None), h @ [l, ev])
        else (Returned (Some rel, snd answer),
              h @ [l, ev, EvCombinedOutput ''kubectl'' args (rls_Manifest rel) answer] @ logs))"
    by blast
  then show ?thesis
    by simp
qed

theorem Install_annotation_witness:
  "fst (Install (stub_Deps (''error: denied'', Some (Foreign ''exit status 1'')))
         (stub_Release (mutate_client
            (Some \<lparr>irr_Release = Some (stub_record ''tiller-ns'' ''rel'' Status_DEPLOYED)\<rparr>, None)
            (None, None)))
         ''/repo'' ''rel'' (stub_fhr ''team'' ''foo'' ''foo-chart'' (Inr ''a: 1'')) InstallAction
         \<lparr>DryRun = False, ReuseName = False\<rparr> [])
     = Returned (Some (stub_record ''tiller-ns'' ''rel'' Status_DEPLOYED),
                 Some (Foreign ''exit status 1''))
   \<and> filter is_annotation
        (snd (Install (stub_Deps (''error: denied'', Some (Foreign ''exit status 1'')))
         (stub_Release (mutate_client
            (Some \<lparr>irr_Release = Some (stub_record ''tiller-ns'' ''rel'' Status_DEPLOYED)\<rparr>, None)
            (None, None)))
         ''/repo'' ''rel'' (stub_fhr ''team'' ''foo'' ''foo-chart'' (Inr ''a: 1'')) InstallAction
         \<lparr>DryRun = False, ReuseName = False\<rparr> []))
     = [EvCombinedOutput ''kubectl''
          [''annotate'', ''--overwrite'', ''--namespace'', ''tiller-ns'', ''-f'', ''-'',
           ''flux.weave.works/antecedent=team:FluxHelmRelease/foo'']
          ''kind: ConfigMap'' (''error: denied'', Some (Foreign ''exit status 1''))]
   \<and> fst (Install (stub_Deps (''error: denied'', Some (Foreign ''exit status 1'')))
         (stub_Release (mutate_client (None, None)
            (Some \<lparr>urr_Release = Some (stub_record ''tiller-ns'' ''rel'' Status_DEPLOYED)\<rparr>, None)))
         ''/repo'' ''rel'' (stub_fhr ''team'' ''foo'' ''foo-chart'' (Inr ''a: 1'')) UpgradeAction
         \<lparr>DryRun = True, ReuseName = False\<rparr> [])
     = Returned (Some (stub_record ''tiller-ns'' ''rel'' Status_DEPLOYED), None)
   \<and> filter is_annotation
        (snd (Install (stub_Deps (''error: denied'', Some (Foreign ''exit status 1'')))
         (stub_Release (mutate_client (None, None)
            (Some \<lparr>urr_Release = Some (stub_record ''tiller-ns'' ''rel'' Status_DEPLOYED)\<rparr>, None)))
         ''/repo'' ''rel'' (stub_fhr ''team'' ''foo'' ''foo-chart'' (Inr ''a: 1'')) UpgradeAction
         \<lparr>DryRun = True, ReuseName = False\<rparr> [])) = []"
proof -
  let ?d = "stub_Deps (''error: denied'', Some (Foreign ''exit status 1''))"
  let ?rel = "stub_record ''tiller-ns'' ''rel'' Status_DEPLOYED"
  let ?r1 = "stub_Release (mutate_client (Some \<lparr>irr_Release = Some ?rel\<rparr>, None) (None, None))"
  let ?r2 = "stub_Release (mutate_client (None, None) (Some \<lparr>urr_Release = Some ?rel\<rparr>, None))"
  let ?fhr = "stub_fhr ''team'' ''foo'' ''foo-chart'' (Inr ''a: 1'')"
  let ?o1 = "\<lparr>DryRun = False, ReuseName = False\<rparr>"
  let ?o2 = "\<lparr>DryRun = True, ReuseName = False\<rparr>"
  let ?i1 = "[ValueOverrides ''a: 1'', ReleaseName ''rel'', InstallDryRun False, InstallReuseName False]"
  let ?u1 = "[UpdateValueOverrides ''a: 1'', UpgradeDryRun False]"
  let ?i2 = "[ValueOverrides ''a: 1'', ReleaseName ''rel'', InstallDryRun True, InstallReuseName False]"
  let ?u2 = "[UpdateValueOverrides ''a: 1'', UpgradeDryRun True]"
  let ?ev1 = "EvInstallRelease ''/repo/charts/foo-chart'' ''team'' ?i1
                (Some \<lparr>irr_Release = Some ?rel\<rparr>, None) :: string event"
  let ?ev2 = "EvUpdateRelease ''rel'' ''/repo/charts/foo-chart'' ?u2
                (Some \<lparr>urr_Release = Some ?rel\<rparr>, None) :: string event"
  let ?args = "[''annotate'', ''--overwrite'', ''--namespace'', ''tiller-ns'', ''-f'', ''-'',
                ''flux.weave.works/antecedent=team:FluxHelmRelease/foo'']"
  let ?answer = "(''error: denied'', Some (Foreign ''exit status 1'')) :: string \<times> string error option"
  have 1: "fst (Install ?d ?r1 ''/repo'' ''rel'' ?fhr InstallAction ?o1 [])
             = Returned (Some ?rel, Some (Foreign ''exit status 1''))
      \<and> filter is_annotation (snd (Install ?d ?r1 ''/repo'' ''rel'' ?fhr InstallAction ?o1 []))
             = [EvCombinedOutput ''kubectl'' ?args ''kind: ConfigMap'' ?answer]"
    using Install_annotation [where d = ?d and r = ?r1 and fhr = ?fhr and strVals = "''a: 1''"
        and h = "[]" and releaseName = "''rel''" and action = InstallAction and opts = ?o1
        and repoDir = "''/repo''" and chartDir = "''/repo/charts/foo-chart''"
        and namespace = "''team''" and iopts = ?i1 and uopts = ?u1
        and iresp = "\<lparr>irr_Release = Some ?rel\<rparr>" and uresp = "\<lparr>urr_Release = None\<rparr>"
        and rel = ?rel and ev = ?ev1 and args = ?args and answer = ?answer
        and ?h1.0 = "[EvLog [LStr ''info'', LStr (''releaseName= '' @ ''rel'' @ '', action=''
                     @ InstallAction @ '', install options: '' @ fmt_InstallOptions ?o1)] None]"]
    by (simp add: stub_defs Log_eq added_def)
  have 2: "fst (Install ?d ?r2 ''/repo'' ''rel'' ?fhr UpgradeAction ?o2 [])
             = Returned (Some ?rel, None)
      \<and> filter is_annotation (snd (Install ?d ?r2 ''/repo'' ''rel'' ?fhr UpgradeAction ?o2 [])) = []"
    using Install_annotation [where d = ?d and r = ?r2 and fhr = ?fhr and strVals = "''a: 1''"
        and h = "[]" and releaseName = "''rel''" and action = UpgradeAction and opts = ?o2
        and repoDir = "''/repo''" and chartDir = "''/repo/charts/foo-chart''"
        and namespace = "''team''" and iopts = ?i2 and uopts = ?u2
        and iresp = "\<lparr>irr_Release = None\<rparr>" and uresp = "\<lparr>urr_Release = Some ?rel\<rparr>"
        and rel = ?rel and ev = ?ev2 and args = ?args and answer = ?answer
        and ?h1.0 = "[EvLog [LStr ''info'', LStr (''releaseName= '' @ ''rel'' @ '', action=''
                     @ UpgradeAction @ '', install options: '' @ fmt_InstallOptions ?o2)] None]"]
    by (simp add: stub_defs Log_eq added_def)
  from 1 2 show ?thesis by blast
qed

text \<open>
  Claim C10. Under the same conditions on the store's answer, for any namespace of the
  resource and outside a dry run: the resource identifier in the label is
  \<open>MakeResourceID\<close> applied to the namespace of the resource as it is (the empty one
  included: no \<open>default\<close> is put in its place), the kind \<open>FluxHelmRelease\<close> and the name;
  the one command that is run is \<open>kubectl annotate\<close> with that label, in the namespace of
  the record the store returned and on its manifest; and for CREATE the one call to the
  store is an \<open>InstallRelease\<close> into the namespace of the resource, or \<open>default\<close> when that
  is empty.
\<close>

theorem annotation_label_raw_namespace:
  assumes path: "ChartGitPath (Spec fhr) \<noteq> []"
    and vals: "Values_YAML d (Values (Spec fhr)) = (strVals, None)"
    and h1: "h1 = snd (Log r [LStr ''info'',
               LStr (''releaseName= '' @ releaseName @ '', action='' @ action
                     @ '', install options: '' @ fmt_InstallOptions opts)] h)"
    and chartDir: "chartDir = filepath_Join d [repoDir, ChartsPath (config r), ChartGitPath (Spec fhr)]"
    and iopts: "iopts = [ValueOverrides strVals, ReleaseName releaseName,
                         InstallDryRun (DryRun opts), InstallReuseName (ReuseName opts)]"
    and uopts: "uopts = [UpdateValueOverrides strVals, UpgradeDryRun (DryRun opts)]"
    and store:
      "(action = InstallAction
          \<and> InstallRelease (HelmClient r) h1 chartDir
                (if fhr_Namespace fhr = [] then ''default'' else fhr_Namespace fhr) iopts
              = (Some iresp, None)
          \<and> irr_Release iresp = Some rel)
       \<or> (action = UpgradeAction
          \<and> UpdateRelease (HelmClient r) h1 releaseName chartDir uopts = (Some uresp, None)
          \<and> urr_Release uresp = Some rel)"
    and not_dry: "\<not> DryRun opts"
  shows "fhrResourceID d fhr
           = MakeResourceID d (fhr_Namespace fhr) ''FluxHelmRelease'' (fhr_Name fhr)
     \<and> (\<exists>answer.
           filter is_annotation (added h (snd (Install d r repoDir releaseName fhr action opts h)))
             = [EvCombinedOutput ''kubectl''
                  [''annotate'', ''--overwrite'', ''--namespace'', rls_Namespace rel, ''-f'', ''-'',
                   AntecedentAnnotation d @ ''='' @ ResourceID_String d
                     (MakeResourceID d (fhr_Namespace fhr) ''FluxHelmRelease'' (fhr_Name fhr))]
                  (rls_Manifest rel) answer])
     \<and> filter is_store_call (added h (snd (Install d r repoDir releaseName fhr action opts h)))
           = (if action = InstallAction
              then [EvInstallRelease chartDir
                      (if fhr_Namespace fhr = [] then ''default'' else fhr_Namespace fhr) iopts
                      (Some iresp, None)]
              else [EvUpdateRelease releaseName chartDir uopts (Some uresp, None)])"
proof -
  let ?ns = "if fhr_Namespace fhr = [] then ''default'' else fhr_Namespace fhr"
  let ?ev = "if action = InstallAction
             then EvInstallRelease chartDir ?ns iopts (Some iresp, None)
             else EvUpdateRelease releaseName chartDir uopts (Some uresp, None)"
  let ?args = "[''annotate'', ''--overwrite'', ''--namespace'', rls_Namespace rel, ''-f'', ''-'',
                AntecedentAnnotation d @ ''='' @ ResourceID_String d
                  (MakeResourceID d (fhr_Namespace fhr) ''FluxHelmRelease'' (fhr_Name fhr))]"
  let ?answer = "CombinedOutput d (h1 @ [?ev]) ''kubectl'' ?args (rls_Manifest rel)"
  have ne: "UpgradeAction \<noteq> InstallAction"
    by (simp add: InstallAction_def UpgradeAction_def)
  from store ne have store':
    "(action = InstallAction
        \<and> InstallRelease (HelmClient r) h1 chartDir ?ns iopts = (Some iresp, None)
        \<and> irr_Release iresp = Some rel
        \<and> ?ev = EvInstallRelease chartDir ?ns iopts (Some iresp, None))
     \<or> (action = UpgradeAction
        \<and> UpdateRelease (HelmClient r) h1 releaseName chartDir uopts = (Some uresp, None)
        \<and> urr_Release uresp = Some rel
        \<and> ?ev = EvUpdateRelease releaseName chartDir uopts (Some uresp, None))"
    by auto
  from Install_success_run [OF path vals h1 chartDir refl iopts uopts store' refl refl] not_dry
  obtain l logs where run: "\<not> is_annotation l" "\<not> is_store_call l"
    "filter is_annotation logs = []" "filter is_store_call logs = []"
    "is_store_call ?ev" "\<not> is_annotation ?ev"
    "Install d r repoDir releaseName fhr action opts h =
       (Returned (Some rel, snd ?answer),
        h @ [l, ?ev, EvCombinedOutput ''kubectl'' ?args (rls_Manifest rel) ?answer] @ logs)"
    by auto
  have id: "fhrResourceID d fhr
      = MakeResourceID d (fhr_Namespace fhr) ''FluxHelmRelease'' (fhr_Name fhr)"
    by (simp add: fhrResourceID_def)
  have ann: "filter is_annotation (added h (snd (Install d r repoDir releaseName fhr action opts h)))
      = [EvCombinedOutput ''kubectl'' ?args (rls_Manifest rel) ?answer]"
    using run by simp
  have st: "filter is_store_call (added h (snd (Install d r repoDir releaseName fhr action opts h)))
      = [?ev]"
    using run by simp
  from id ann st show ?thesis
    by (auto split: if_splits)
qed

theorem annotation_label_raw_namespace_witness:
  "filter is_store_call
     (snd (Install (stub_Deps ([], None))
         (stub_Release (mutate_client
            (Some \<lparr>irr_Release = Some (stub_record ''tiller-ns'' ''rel'' Status_DEPLOYED)\<rparr>, None)
            (None, None)))
         ''/repo'' ''rel'' (stub_fhr [] ''foo'' ''foo-chart'' (Inr ''a: 1'')) InstallAction
         \<lparr>DryRun = False, ReuseName = False\<rparr> []))
     = [EvInstallRelease ''/repo/charts/foo-chart'' ''default''
          [ValueOverrides ''a: 1'', ReleaseName ''rel'', InstallDryRun False,
           InstallReuseName False]
          (Some \<lparr>irr_Release = Some (stub_record ''tiller-ns'' ''rel'' Status_DEPLOYED)\<rparr>, None)]
   \<and> (\<exists>answer. filter is_annotation
     (snd (Install (stub_Deps ([], None))
         (stub_Release (mutate_client
            (Some \<lparr>irr_Release = Some (stub_record ''tiller-ns'' ''rel'' Status_DEPLOYED)\<rparr>, None)
            (None, None)))
         ''/repo'' ''rel'' (stub_fhr [] ''foo'' ''foo-chart'' (Inr ''a: 1'')) InstallAction
         \<lparr>DryRun = False, ReuseName = False\<rparr> []))
     = [EvCombinedOutput ''kubectl''
          [''annotate'', ''--overwrite'', ''--namespace'', ''tiller-ns'', ''-f'', ''-'',
           ''flux.weave.works/antecedent=:FluxHelmRelease/foo'']
          ''kind: ConfigMap'' answer])
   \<and> fhrResourceID (stub_Deps ([], None)) (stub_fhr [] ''foo'' ''foo-chart'' (Inr ''a: 1''))
     = ([], ''FluxHelmRelease'', ''foo'')
   \<and> (\<exists>answer. filter is_annotation
     (snd (Install (stub_Deps ([], None))
         (stub_Release (mutate_client (None, None)
            (Some \<lparr>urr_Release = Some (stub_record ''tiller-ns'' ''rel'' Status_DEPLOYED)\<rparr>, None)))
         ''/repo'' ''rel'' (stub_fhr ''team'' ''foo'' ''foo-chart'' (Inr ''a: 1'')) UpgradeAction
         \<lparr>DryRun = False, ReuseName = False\<rparr> []))
     = [EvCombinedOutput ''kubectl''
          [''annotate'', ''--overwrite'', ''--namespace'', ''tiller-ns'', ''-f'', ''-'',
           ''flux.weave.works/antecedent=team:FluxHelmRelease/foo'']
          ''kind: ConfigMap'' answer])
   \<and> fhrResourceID (stub_Deps ([], None)) (stub_fhr ''team'' ''foo'' ''foo-chart'' (Inr ''a: 1''))
     = (''team'', ''FluxHelmRelease'', ''foo'')"
proof -
  let ?d = "stub_Deps ([], None)"
  let ?rel = "stub_record ''tiller-ns'' ''rel'' Status_DEPLOYED"
  let ?r1 = "stub_Release (mutate_client (Some \<lparr>irr_Release = Some ?rel\<rparr>, None) (None, None))"
  let ?r2 = "stub_Release (mutate_client (None, None) (Some \<lparr>urr_Release = Some ?rel\<rparr>, None))"
  let ?f1 = "stub_fhr [] ''foo'' ''foo-chart'' (Inr ''a: 1'')"
  let ?f2 = "stub_fhr ''team'' ''foo'' ''foo-chart'' (Inr ''a: 1'')"
  let ?o = "\<lparr>DryRun = False, ReuseName = False\<rparr>"
  let ?i = "[ValueOverrides ''a: 1'', ReleaseName ''rel'', InstallDryRun False, InstallReuseName False]"
  let ?u = "[UpdateValueOverrides ''a: 1'', UpgradeDryRun False]"
  let ?run1 = "Install ?d ?r1 ''/repo'' ''rel'' ?f1 InstallAction ?o []"
  let ?run2 = "Install ?d ?r2 ''/repo'' ''rel'' ?f2 UpgradeAction ?o []"
  have 1: "filter is_store_call (snd ?run1)
        = [EvInstallRelease ''/repo/charts/foo-chart'' ''default'' ?i
             (Some \<lparr>irr_Release = Some ?rel\<rparr>, None)]
      \<and> (\<exists>answer. filter is_annotation (snd ?run1)
        = [EvCombinedOutput ''kubectl''
            [''annotate'', ''--overwrite'', ''--namespace'', ''tiller-ns'', ''-f'', ''-'',
             ''flux.weave.works/antecedent=:FluxHelmRelease/foo'']
            ''kind: ConfigMap'' answer])
      \<and> fhrResourceID ?d ?f1 = ([], ''FluxHelmRelease'', ''foo'')"
    using annotation_label_raw_namespace [where d = ?d and r = ?r1 and fhr = ?f1
        and strVals = "''a: 1''" and h = "[]" and releaseName = "''rel''"
        and action = InstallAction and opts = ?o and repoDir = "''/repo''"
        and chartDir = "''/repo/charts/foo-chart''" and iopts = ?i and uopts = ?u
        and iresp = "\<lparr>irr_Release = Some ?rel\<rparr>" and uresp = "\<lparr>urr_Release = None\<rparr>"
        and rel = ?rel
        and ?h1.0 = "[EvLog [LStr ''info'', LStr (''releaseName= '' @ ''rel'' @ '', action=''
                     @ InstallAction @ '', install options: '' @ fmt_InstallOptions ?o)] None]"]
    by (simp add: stub_defs Log_eq added_def)
  have 2: "(\<exists>answer. filter is_annotation (snd ?run2)
        = [EvCombinedOutput ''kubectl''
            [''annotate'', ''--overwrite'', ''--namespace'', ''tiller-ns'', ''-f'', ''-'',
             ''flux.weave.works/antecedent=team:FluxHelmRelease/foo'']
            ''kind: ConfigMap'' answer])
      \<and> fhrResourceID ?d ?f2 = (''team'', ''FluxHelmRelease'', ''foo'')"
    using annotation_label_raw_namespace [where d = ?d and r = ?r2 and fhr = ?f2
        and strVals = "''a: 1''" and h = "[]" and releaseName = "''rel''"
        and action = UpgradeAction and opts = ?o and repoDir = "''/repo''"
        and chartDir = "''/repo/charts/foo-chart''" and iopts = ?i and uopts = ?u
        and iresp = "\<lparr>irr_Release = None\<rparr>" and uresp = "\<lparr>urr_Release = Some ?rel\<rparr>"
        and rel = ?rel
        and ?h1.0 = "[EvLog [LStr ''info'', LStr (''releaseName= '' @ ''rel'' @ '', action=''
                     @ UpgradeAction @ '', install options: '' @ fmt_InstallOptions ?o)] None]"]
    by (simp add: stub_defs Log_eq added_def InstallAction_def UpgradeAction_def)
  from 1 2 show ?thesis by blast
qed

end
